theory Spec2Isabelle
  imports Complex_Main "HOL-Library.AList"
begin

unbundle bit_operations_syntax

section \<open>Python primitives used by the tracking code\<close>

text \<open>
  MAC addresses, node ids and user names are Python \<open>str\<close> values. They are modelled as
  HOL strings and read as ASCII text; \<open>str.upper\<close> is modelled on the ASCII letters.
  Python floats are modelled as exact real numbers, \<open>datetime.now()\<close> as a clock value
  handed to each operation, and \<open>print\<close> is left out.
\<close>

datatype py_error = IndexError | ValueError

definition upper_char :: "char \<Rightarrow> char" where
  "upper_char c =
     (let n = (of_char c :: nat) in if 97 \<le> n \<and> n \<le> 122 then char_of (n - 32) else c)"

definition py_upper :: "string \<Rightarrow> string" where
  "py_upper s = map upper_char s"

definition py_remove :: "char \<Rightarrow> string \<Rightarrow> string" where
  \<comment> \<open>\<open>s.replace(c, '')\<close> for a one-character \<open>c\<close>\<close>
  "py_remove c s = filter (\<lambda>x. x \<noteq> c) s"

definition startswith :: "string \<Rightarrow> string \<Rightarrow> bool" where
  "startswith s p = (take (length p) s = p)"

definition py_last :: "nat \<Rightarrow> 'a list \<Rightarrow> 'a list" where
  \<comment> \<open>the slice \<open>xs[-n:]\<close>; \<open>xs[-0:]\<close> is the whole list\<close>
  "py_last n xs = (if n = 0 then xs else drop (length xs - n) xs)"

definition hex_digit :: "char \<Rightarrow> nat option" where
  "hex_digit c =
     (let n = (of_char c :: nat) in
      if 48 \<le> n \<and> n \<le> 57 then Some (n - 48)
      else if 65 \<le> n \<and> n \<le> 70 then Some (n - 55)
      else if 97 \<le> n \<and> n \<le> 102 then Some (n - 87)
      else None)"

definition py_isspace :: "char \<Rightarrow> bool" where
  "py_isspace c = (let n = (of_char c :: nat) in (9 \<le> n \<and> n \<le> 13) \<or> n = 32)"

definition py_strip :: "string \<Rightarrow> string" where
  "py_strip s = rev (dropWhile py_isspace (rev (dropWhile py_isspace s)))"

fun digits_ok :: "bool \<Rightarrow> string \<Rightarrow> bool" where
  \<comment> \<open>digits with single underscores between them; the flag says that a digit must come next\<close>
  "digits_ok need [] = (\<not> need)"
| "digits_ok need (c # cs) =
     (if c = CHR ''_'' then \<not> need \<and> digits_ok True cs
      else hex_digit c \<noteq> None \<and> digits_ok False cs)"

fun digits_value :: "nat \<Rightarrow> string \<Rightarrow> nat" where
  "digits_value acc [] = acc"
| "digits_value acc (c # cs) =
     (case hex_digit c of None \<Rightarrow> digits_value acc cs
      | Some d \<Rightarrow> digits_value (16 * acc + d) cs)"

definition py_int16 :: "string \<Rightarrow> int option" where
  \<comment> \<open>\<open>int(s, 16)\<close>: surrounding whitespace, a sign, a \<open>0x\<close> prefix and single underscores
      are accepted; \<open>None\<close> stands for ValueError\<close>
  "py_int16 s =
     (let t = py_strip s;
          neg = (t \<noteq> [] \<and> hd t = CHR ''-'');
          u = (if t \<noteq> [] \<and> (hd t = CHR ''+'' \<or> hd t = CHR ''-'') then tl t else t);
          v = (case u of
                 a # b # r \<Rightarrow>
                   if a = CHR ''0'' \<and> (b = CHR ''x'' \<or> b = CHR ''X'')
                   then (case r of c # r' \<Rightarrow> if c = CHR ''_'' then r' else r | [] \<Rightarrow> r)
                   else u
               | _ \<Rightarrow> u)
      in if digits_ok True v
         then Some (if neg then - int (digits_value 0 v) else int (digits_value 0 v))
         else None)"

section \<open>mac_filtering.py: MobilePhoneDetector\<close>

subsection \<open>The OUI tables\<close>

text \<open>
  The two dict literals of \<open>_load_mobile_ouis\<close> and \<open>_load_infrastructure_ouis\<close>, entry
  by entry in source order. A key written twice in a Python dict literal keeps the value
  written last, which is what \<open>dict_literal\<close> looks up.
\<close>

fun dict_literal :: "('k \<times> 'v) list \<Rightarrow> 'v option \<Rightarrow> 'k \<Rightarrow> 'v option" where
  \<comment> \<open>the value of key \<open>k\<close> after the entries are stored one after the other, starting
      from the value \<open>cur\<close> that \<open>k\<close> has so far\<close>
  "dict_literal [] cur k = cur"
| "dict_literal (p # ps) cur k = dict_literal ps (if fst p = k then Some (snd p) else cur) k"

definition mobile_oui_entries :: "(string \<times> string) list" where
  "mobile_oui_entries = [
    (''00:03:93'', ''Apple iPhone''), (''00:0A:95'', ''Apple iPhone''), (''00:17:F2'', ''Apple iPhone''),
    (''00:1B:63'', ''Apple iPhone''), (''00:1E:C2'', ''Apple iPhone''), (''00:23:12'', ''Apple iPhone''),
    (''00:25:BC'', ''Apple iPhone''), (''00:26:08'', ''Apple iPhone''), (''04:0C:CE'', ''Apple iPhone''),
    (''04:15:52'', ''Apple iPhone''), (''04:1E:64'', ''Apple iPhone''), (''04:69:F2'', ''Apple iPhone''),
    (''04:DB:56'', ''Apple iPhone''), (''04:F7:E4'', ''Apple iPhone''), (''08:00:07'', ''Apple iPhone''),
    (''0C:3E:9F'', ''Apple iPhone''), (''0C:74:C2'', ''Apple iPhone''), (''10:40:F3'', ''Apple iPhone''),
    (''14:20:5E'', ''Apple iPhone''), (''14:7D:DA'', ''Apple iPhone''), (''18:AF:8F'', ''Apple iPhone''),
    (''1C:AB:A7'', ''Apple iPhone''), (''20:A2:E4'', ''Apple iPhone''), (''24:A0:74'', ''Apple iPhone''),
    (''28:37:37'', ''Apple iPhone''), (''2C:1F:23'', ''Apple iPhone''), (''30:35:AD'', ''Apple iPhone''),
    (''30:90:AB'', ''Apple iPhone''), (''34:A3:95'', ''Apple iPhone''), (''38:B5:4D'', ''Apple iPhone''),
    (''3C:2E:FF'', ''Apple iPhone''), (''40:83:DE'', ''Apple iPhone''), (''44:4C:0C'', ''Apple iPhone''),
    (''48:74:6E'', ''Apple iPhone''), (''4C:3C:16'', ''Apple iPhone''), (''50:ED:3C'', ''Apple iPhone''),
    (''54:72:4F'', ''Apple iPhone''), (''58:55:CA'', ''Apple iPhone''), (''5C:95:AE'', ''Apple iPhone''),
    (''60:F4:45'', ''Apple iPhone''), (''64:B0:A6'', ''Apple iPhone''), (''68:AE:20'', ''Apple iPhone''),
    (''6C:72:20'', ''Apple iPhone''), (''70:1C:E7'', ''Apple iPhone''), (''74:E2:F5'', ''Apple iPhone''),
    (''78:4F:43'', ''Apple iPhone''), (''7C:6D:62'', ''Apple iPhone''), (''80:BE:05'', ''Apple iPhone''),
    (''84:38:35'', ''Apple iPhone''), (''88:66:5A'', ''Apple iPhone''), (''8C:85:90'', ''Apple iPhone''),
    (''90:72:40'', ''Apple iPhone''), (''94:E9:6A'', ''Apple iPhone''), (''98:FE:94'', ''Apple iPhone''),
    (''9C:04:EB'', ''Apple iPhone''), (''A0:99:9B'', ''Apple iPhone''), (''A4:5E:60'', ''Apple iPhone''),
    (''A8:51:AB'', ''Apple iPhone''), (''AC:87:A3'', ''Apple iPhone''), (''B0:65:BD'', ''Apple iPhone''),
    (''B4:F0:AB'', ''Apple iPhone''), (''B8:78:2E'', ''Apple iPhone''), (''BC:3B:AF'', ''Apple iPhone''),
    (''C0:9A:D0'', ''Apple iPhone''), (''C4:B3:01'', ''Apple iPhone''), (''C8:2A:14'', ''Apple iPhone''),
    (''CC:25:EF'', ''Apple iPhone''), (''D0:23:DB'', ''Apple iPhone''), (''D4:90:9C'', ''Apple iPhone''),
    (''D8:1D:72'', ''Apple iPhone''), (''DC:2B:2A'', ''Apple iPhone''), (''E0:AC:CB'', ''Apple iPhone''),
    (''E4:8B:7F'', ''Apple iPhone''), (''E8:80:2E'', ''Apple iPhone''), (''EC:35:86'', ''Apple iPhone''),
    (''F0:24:75'', ''Apple iPhone''), (''F4:F1:5A'', ''Apple iPhone''), (''F8:27:93'', ''Apple iPhone''),
    (''FC:25:3F'', ''Apple iPhone''), (''00:07:AB'', ''Samsung Android''), (''00:0E:07'', ''Samsung Android''),
    (''00:12:47'', ''Samsung Android''), (''00:15:99'', ''Samsung Android''), (''00:16:32'', ''Samsung Android''),
    (''00:17:C9'', ''Samsung Android''), (''00:1A:8A'', ''Samsung Android''), (''00:1D:25'', ''Samsung Android''),
    (''00:1E:E1'', ''Samsung Android''), (''00:21:19'', ''Samsung Android''), (''00:23:39'', ''Samsung Android''),
    (''00:26:37'', ''Samsung Android''), (''04:18:D6'', ''Samsung Android''), (''08:37:3D'', ''Samsung Android''),
    (''0C:14:20'', ''Samsung Android''), (''0C:89:10'', ''Samsung Android''), (''10:1D:C0'', ''Samsung Android''),
    (''14:7F:3C'', ''Samsung Android''), (''18:3A:2D'', ''Samsung Android''), (''1C:5A:3E'', ''Samsung Android''),
    (''20:13:E0'', ''Samsung Android''), (''24:4B:81'', ''Samsung Android''), (''28:39:26'', ''Samsung Android''),
    (''2C:44:01'', ''Samsung Android''), (''30:07:4D'', ''Samsung Android''), (''34:23:87'', ''Samsung Android''),
    (''38:AA:3C'', ''Samsung Android''), (''3C:5A:B4'', ''Samsung Android''), (''40:0E:85'', ''Samsung Android''),
    (''44:00:10'', ''Samsung Android''), (''48:5A:3F'', ''Samsung Android''), (''4C:BC:42'', ''Samsung Android''),
    (''50:CC:F8'', ''Samsung Android''), (''54:88:0E'', ''Samsung Android''), (''58:1F:AA'', ''Samsung Android''),
    (''5C:0A:5B'', ''Samsung Android''), (''60:6B:BD'', ''Samsung Android''), (''64:16:66'', ''Samsung Android''),
    (''68:EB:C5'', ''Samsung Android''), (''6C:2F:2C'', ''Samsung Android''), (''70:F9:27'', ''Samsung Android''),
    (''74:45:8A'', ''Samsung Android''), (''78:25:AD'', ''Samsung Android''), (''7C:61:66'', ''Samsung Android''),
    (''80:57:19'', ''Samsung Android''), (''84:25:3F'', ''Samsung Android''), (''88:32:9B'', ''Samsung Android''),
    (''8C:77:12'', ''Samsung Android''), (''90:18:7C'', ''Samsung Android''), (''94:35:0A'', ''Samsung Android''),
    (''98:52:3D'', ''Samsung Android''), (''9C:28:EF'', ''Samsung Android''), (''A0:21:B7'', ''Samsung Android''),
    (''A4:EB:D3'', ''Samsung Android''), (''A8:DB:03'', ''Samsung Android''), (''AC:5F:3E'', ''Samsung Android''),
    (''B0:72:BF'', ''Samsung Android''), (''B4:62:93'', ''Samsung Android''), (''B8:5E:7B'', ''Samsung Android''),
    (''BC:14:85'', ''Samsung Android''), (''C0:BD:D1'', ''Samsung Android''), (''C4:42:02'', ''Samsung Android''),
    (''C8:BA:94'', ''Samsung Android''), (''CC:07:AB'', ''Samsung Android''), (''D0:17:6A'', ''Samsung Android''),
    (''D4:87:D8'', ''Samsung Android''), (''D8:90:E8'', ''Samsung Android''), (''DC:71:96'', ''Samsung Android''),
    (''E0:91:F5'', ''Samsung Android''), (''E4:32:CB'', ''Samsung Android''), (''E8:50:8B'', ''Samsung Android''),
    (''EC:1F:72'', ''Samsung Android''), (''F0:25:B7'', ''Samsung Android''), (''F4:0F:24'', ''Samsung Android''),
    (''F8:04:2E'', ''Samsung Android''), (''FC:A6:21'', ''Samsung Android''), (''00:1A:11'', ''Google Pixel''),
    (''04:C0:6F'', ''Google Pixel''), (''5C:51:4F'', ''Google Pixel''), (''64:C5:AA'', ''Google Pixel''),
    (''8C:85:90'', ''Google Pixel''), (''AC:37:43'', ''Google Pixel''), (''B4:77:39'', ''Google Pixel''),
    (''C4:43:8F'', ''Google Pixel''), (''DC:2B:61'', ''Google Pixel''), (''F8:8F:CA'', ''Google Pixel''),
    (''00:18:82'', ''Huawei Android''), (''00:1E:10'', ''Huawei Android''), (''00:25:9E'', ''Huawei Android''),
    (''04:BD:88'', ''Huawei Android''), (''08:7A:4C'', ''Huawei Android''), (''0C:96:BF'', ''Huawei Android''),
    (''10:1F:74'', ''Huawei Android''), (''14:F6:D8'', ''Huawei Android''), (''18:4F:32'', ''Huawei Android''),
    (''1C:1D:67'', ''Huawei Android''), (''20:F3:A3'', ''Huawei Android''), (''24:09:95'', ''Huawei Android''),
    (''28:C6:8E'', ''Huawei Android''), (''2C:AB:25'', ''Huawei Android''), (''30:B4:9E'', ''Huawei Android''),
    (''34:6B:D3'', ''Huawei Android''), (''38:BC:01'', ''Huawei Android''), (''3C:8B:FE'', ''Huawei Android''),
    (''40:4D:8E'', ''Huawei Android''), (''44:6D:6C'', ''Huawei Android''), (''48:DB:50'', ''Huawei Android''),
    (''4C:54:99'', ''Huawei Android''), (''50:8F:4C'', ''Huawei Android''), (''54:25:EA'', ''Huawei Android''),
    (''58:2A:F7'', ''Huawei Android''), (''5C:C9:D3'', ''Huawei Android''), (''60:DE:44'', ''Huawei Android''),
    (''64:3E:8C'', ''Huawei Android''), (''68:13:E2'', ''Huawei Android''), (''6C:E8:73'', ''Huawei Android''),
    (''70:72:3C'', ''Huawei Android''), (''74:A7:22'', ''Huawei Android''), (''78:D6:F0'', ''Huawei Android''),
    (''7C:B2:1B'', ''Huawei Android''), (''80:38:BC'', ''Huawei Android''), (''84:A4:23'', ''Huawei Android''),
    (''88:E3:AB'', ''Huawei Android''), (''8C:34:FD'', ''Huawei Android''), (''90:67:1C'', ''Huawei Android''),
    (''94:04:9C'', ''Huawei Android''), (''98:54:1B'', ''Huawei Android''), (''9C:28:BF'', ''Huawei Android''),
    (''A0:8C:FD'', ''Huawei Android''), (''A4:50:46'', ''Huawei Android''), (''A8:1E:84'', ''Huawei Android''),
    (''AC:E2:D3'', ''Huawei Android''), (''B0:E2:35'', ''Huawei Android''), (''B4:CD:27'', ''Huawei Android''),
    (''B8:08:CF'', ''Huawei Android''), (''BC:25:E5'', ''Huawei Android''), (''C0:EE:40'', ''Huawei Android''),
    (''C4:0B:CB'', ''Huawei Android''), (''C8:14:79'', ''Huawei Android''), (''CC:B1:1A'', ''Huawei Android''),
    (''D0:7E:35'', ''Huawei Android''), (''D4:6A:6A'', ''Huawei Android''), (''D8:49:2F'', ''Huawei Android''),
    (''DC:D8:9D'', ''Huawei Android''), (''E0:19:1D'', ''Huawei Android''), (''E4:58:B8'', ''Huawei Android''),
    (''E8:CD:2D'', ''Huawei Android''), (''EC:23:3D'', ''Huawei Android''), (''F0:79:59'', ''Huawei Android''),
    (''F4:28:53'', ''Huawei Android''), (''F8:98:B9'', ''Huawei Android''), (''FC:48:EF'', ''Huawei Android''),
    (''00:90:E6'', ''OnePlus Android''), (''08:05:81'', ''OnePlus Android''), (''0C:8D:DB'', ''OnePlus Android''),
    (''10:68:3F'', ''OnePlus Android''), (''14:D1:27'', ''OnePlus Android''), (''18:4A:AE'', ''OnePlus Android''),
    (''1C:B0:94'', ''OnePlus Android''), (''20:68:9D'', ''OnePlus Android''), (''24:CF:24'', ''OnePlus Android''),
    (''28:E1:4C'', ''OnePlus Android''), (''2C:F4:32'', ''OnePlus Android''), (''30:E1:71'', ''OnePlus Android''),
    (''34:97:F6'', ''OnePlus Android''), (''38:A4:ED'', ''OnePlus Android''), (''3C:BD:3E'', ''OnePlus Android''),
    (''40:B0:76'', ''OnePlus Android''), (''44:91:60'', ''OnePlus Android''), (''48:C1:AC'', ''OnePlus Android''),
    (''4C:49:E3'', ''OnePlus Android''), (''50:8A:06'', ''OnePlus Android''), (''54:E4:3A'', ''OnePlus Android''),
    (''58:CB:52'', ''OnePlus Android''), (''5C:A6:E6'', ''OnePlus Android''), (''60:AB:14'', ''OnePlus Android''),
    (''64:BC:0C'', ''OnePlus Android''), (''68:EB:AE'', ''OnePlus Android''), (''6C:24:08'', ''OnePlus Android''),
    (''70:4A:0E'', ''OnePlus Android''), (''74:4C:A1'', ''OnePlus Android''), (''78:2B:CB'', ''OnePlus Android''),
    (''7C:1C:4E'', ''OnePlus Android''), (''80:7A:BF'', ''OnePlus Android''), (''84:C7:EA'', ''OnePlus Android''),
    (''88:83:5D'', ''OnePlus Android''), (''8C:1A:B0'', ''OnePlus Android''), (''90:E8:68'', ''OnePlus Android''),
    (''94:65:9C'', ''OnePlus Android''), (''98:22:EF'', ''OnePlus Android''), (''9C:07:A3'', ''OnePlus Android''),
    (''A0:C5:89'', ''OnePlus Android''), (''A4:34:D9'', ''OnePlus Android''), (''A8:26:D9'', ''OnePlus Android''),
    (''AC:22:0B'', ''OnePlus Android''), (''B0:A7:37'', ''OnePlus Android''), (''B4:52:7E'', ''OnePlus Android''),
    (''B8:9A:2A'', ''OnePlus Android''), (''BC:25:E5'', ''OnePlus Android''), (''C0:05:C2'', ''OnePlus Android''),
    (''C4:07:2F'', ''OnePlus Android''), (''C8:FF:77'', ''OnePlus Android''), (''CC:15:31'', ''OnePlus Android''),
    (''D0:53:49'', ''OnePlus Android''), (''D4:6E:0E'', ''OnePlus Android''), (''D8:55:A3'', ''OnePlus Android''),
    (''DC:91:A7'', ''OnePlus Android''), (''E0:B9:4D'', ''OnePlus Android''), (''E4:42:A6'', ''OnePlus Android''),
    (''E8:92:A4'', ''OnePlus Android''), (''EC:F4:BB'', ''OnePlus Android''), (''F0:27:2D'', ''OnePlus Android''),
    (''F4:0E:22'', ''OnePlus Android''), (''F8:63:3F'', ''OnePlus Android''), (''FC:05:A6'', ''OnePlus Android'')]"
definition infrastructure_oui_entries :: "(string \<times> string) list" where
  "infrastructure_oui_entries = [
    (''00:00:0C'', ''Cisco Router/Switch''), (''00:01:42'', ''Cisco Router/Switch''), (''00:01:43'', ''Cisco Router/Switch''),
    (''00:01:96'', ''Cisco Router/Switch''), (''00:01:97'', ''Cisco Router/Switch''), (''00:02:16'', ''Cisco Router/Switch''),
    (''00:02:17'', ''Cisco Router/Switch''), (''00:02:4A'', ''Cisco Router/Switch''), (''00:02:4B'', ''Cisco Router/Switch''),
    (''00:02:B9'', ''Cisco Router/Switch''), (''00:02:BA'', ''Cisco Router/Switch''), (''00:03:31'', ''Cisco Router/Switch''),
    (''00:03:32'', ''Cisco Router/Switch''), (''00:03:6B'', ''Cisco Router/Switch''), (''00:03:6C'', ''Cisco Router/Switch''),
    (''00:03:A0'', ''Cisco Router/Switch''), (''00:03:E3'', ''Cisco Router/Switch''), (''00:03:FD'', ''Cisco Router/Switch''),
    (''00:03:FE'', ''Cisco Router/Switch''), (''00:04:27'', ''Cisco Router/Switch''), (''00:04:28'', ''Cisco Router/Switch''),
    (''00:04:4D'', ''Cisco Router/Switch''), (''00:04:6D'', ''Cisco Router/Switch''), (''00:04:9A'', ''Cisco Router/Switch''),
    (''00:04:C0'', ''Cisco Router/Switch''), (''00:04:C1'', ''Cisco Router/Switch''), (''00:04:DD'', ''Cisco Router/Switch''),
    (''04:18:D6'', ''Ubiquiti UniFi AP''), (''18:E8:29'', ''Ubiquiti UniFi AP''), (''24:5A:4C'', ''Ubiquiti UniFi AP''),
    (''44:D9:E7'', ''Ubiquiti UniFi AP''), (''68:72:51'', ''Ubiquiti UniFi AP''), (''74:83:C2'', ''Ubiquiti UniFi AP''),
    (''78:8A:20'', ''Ubiquiti UniFi AP''), (''80:2A:A8'', ''Ubiquiti UniFi AP''), (''B4:FB:E4'', ''Ubiquiti UniFi AP''),
    (''DC:9F:DB'', ''Ubiquiti UniFi AP''), (''E4:38:83'', ''Ubiquiti UniFi AP''), (''F0:9F:C2'', ''Ubiquiti UniFi AP''),
    (''FC:EC:DA'', ''Ubiquiti UniFi AP''), (''14:CC:20'', ''TP-Link Router/AP''), (''50:C7:BF'', ''TP-Link Router/AP''),
    (''60:E3:27'', ''TP-Link Router/AP''), (''6C:5A:B0'', ''TP-Link Router/AP''), (''84:16:F9'', ''TP-Link Router/AP''),
    (''A0:F3:C1'', ''TP-Link Router/AP''), (''B0:4E:26'', ''TP-Link Router/AP''), (''C0:25:A2'', ''TP-Link Router/AP''),
    (''E8:DE:27'', ''TP-Link Router/AP''), (''F4:EC:38'', ''TP-Link Router/AP''), (''B8:27:EB'', ''Raspberry Pi''),
    (''DC:A6:32'', ''Raspberry Pi''), (''E4:5F:01'', ''Raspberry Pi''), (''00:13:A2'', ''Digi XBee''),
    (''00:50:C2'', ''IEEE 802.11 devices''), (''02:00:00'', ''Private/Random MAC''), (''00:0E:8E'', ''Rajant Mesh Node''),
    (''00:1C:9E'', ''Rajant Mesh Node''), (''00:24:7E'', ''Rajant Mesh Node'')]"

definition mobile_ouis :: "string \<rightharpoonup> string" where
  "mobile_ouis = dict_literal mobile_oui_entries None"

definition infrastructure_ouis :: "string \<rightharpoonup> string" where
  "infrastructure_ouis = dict_literal infrastructure_oui_entries None"


subsection \<open>Classification\<close>

text \<open>
  Leading underscores of Python names are dropped (\<open>_is_randomized_mac\<close> is
  \<open>is_randomized_mac\<close>). The third component of a classification is its label; the
  f-string \<open>"Unknown Mobile (Behavior Score: {confidence:.2f})"\<close> is kept as the number it
  formats. The \<open>config\<close> dict is set once in \<open>__init__\<close> and only read afterwards.
\<close>

datatype device_label = Label string | Unknown_Mobile_Score real

record device_info =
  di_mac :: string
  di_vendor :: string
  di_device_type :: string
  di_confidence :: real
  di_first_seen :: nat
  di_signal_pattern :: "int list"
  di_behavior_score :: real

record detector =
  device_history :: "string \<rightharpoonup> device_info"

definition signal_variance_threshold :: real where
  "signal_variance_threshold = 10"

definition min_confidence_score :: real where
  "min_confidence_score = 0.7"

definition get_oui :: "string \<Rightarrow> string" where
  "get_oui m = take 6 (py_remove (CHR ''-'') (py_remove (CHR '':'') (py_upper m)))"

definition format_oui :: "string \<Rightarrow> string" where
  "format_oui oui = take 2 oui @ '':'' @ take 2 (drop 2 oui) @ '':'' @ take 2 (drop 4 oui)"

definition is_randomized_mac :: "string \<Rightarrow> bool" where
  \<comment> \<open>\<open>int(mac.split(':')[0], 16) & 0x02 != 0\<close>, and False when \<open>int\<close> raises\<close>
  "is_randomized_mac m =
     (case py_int16 (takeWhile (\<lambda>c. c \<noteq> CHR '':'') m) of
        None \<Rightarrow> False
      | Some first_octet \<Rightarrow> first_octet AND 2 \<noteq> 0)"

definition calculate_signal_variance :: "int list \<Rightarrow> real" where
  "calculate_signal_variance signals =
     (if length signals < 2 then 0
      else let avg = real_of_int (sum_list signals) / real (length signals);
               variance = (\<Sum>s\<leftarrow>signals. (real_of_int s - avg) ^ 2) / real (length signals)
           in sqrt variance)"

definition calculate_behavior_score :: "device_info \<Rightarrow> real" where
  "calculate_behavior_score device =
     (let signal_variance = calculate_signal_variance (di_signal_pattern device);
          movement_score = min (signal_variance / 15.0) 1.0;
          time_score = 0.7;
          frequency_score = 0.6
      in movement_score * 0.5 + time_score * 0.3 + frequency_score * 0.2)"

definition analyze_unknown_device :: "detector \<Rightarrow> string \<Rightarrow> bool \<times> real \<times> device_label" where
  "analyze_unknown_device st m =
     (case device_history st m of
        None \<Rightarrow> (False, 0.3, Label ''Unknown Device (Need More Data)'')
      | Some device \<Rightarrow>
          let signal_variance = calculate_signal_variance (di_signal_pattern device);
              movement_score = min (signal_variance / signal_variance_threshold) 1.0;
              behavior_score = di_behavior_score device;
              confidence = movement_score * 0.6 + behavior_score * 0.4;
              is_mobile = (confidence > min_confidence_score);
              device_type = (if is_mobile then Unknown_Mobile_Score confidence
                             else Label ''Unknown Static Device'')
          in (is_mobile, confidence, device_type))"

definition is_mobile_device :: "detector \<Rightarrow> string \<Rightarrow> bool \<times> real \<times> device_label" where
  "is_mobile_device st m =
     (let oui = get_oui m;
          formatted_oui = format_oui oui
      in case mobile_ouis formatted_oui of
           Some v \<Rightarrow> (True, 0.95, Label v)
         | None \<Rightarrow>
             (case infrastructure_ouis formatted_oui of
                Some v \<Rightarrow> (False, 0.95, Label v)
              | None \<Rightarrow>
                  if is_randomized_mac m then (True, 0.8, Label ''Mobile (Randomized MAC)'')
                  else analyze_unknown_device st m))"

definition update_device_history :: "detector \<Rightarrow> string \<Rightarrow> int \<Rightarrow> string \<Rightarrow> nat \<Rightarrow> detector" where
  "update_device_history st m signal_strength node_id now =
     (case device_history st m of
        None \<Rightarrow>
          st\<lparr>device_history := (device_history st)(m \<mapsto>
               \<lparr>di_mac = m, di_vendor = ''Unknown'', di_device_type = ''Unknown'',
                di_confidence = 0.0, di_first_seen = now,
                di_signal_pattern = [signal_strength], di_behavior_score = 0.0\<rparr>)\<rparr>
      | Some device \<Rightarrow>
          let d1 = device\<lparr>di_signal_pattern := di_signal_pattern device @ [signal_strength]\<rparr>;
              d2 = d1\<lparr>di_signal_pattern := py_last 20 (di_signal_pattern d1)\<rparr>;
              d3 = d2\<lparr>di_behavior_score := calculate_behavior_score d2\<rparr>
          in st\<lparr>device_history := (device_history st)(m \<mapsto> d3)\<rparr>)"


section \<open>smart_mac_tracking.py: SmartMACTracker\<close>

text \<open>
  The tracker's state is the two attributes the methods read and write: \<open>mac_history\<close>
  (a dict from MAC to its list of samples) and \<open>known_users\<close> (a dict from MAC to the
  registration, kept as an association list in insertion order, which is the order the
  matcher iterates in). An exception raised by \<open>int\<close> or by indexing is a value of
  \<open>py_error\<close>.
\<close>

record signal_sample =
  s_signal :: int
  s_node :: string
  s_timestamp :: nat

record device_fingerprint =
  current_mac :: string
  signal_strength :: int
  signal_pattern :: "int list"
  connection_time :: nat
  movement_pattern :: "string list"
  device_capabilities :: "(string \<times> string) list"
  vendor_info :: string

record user_data =
  ud_name :: string
  registered_at :: nat
  ud_mac_history :: "string list"
  is_randomized :: bool

record tracker =
  mac_history :: "string \<rightharpoonup> signal_sample list"
  known_users :: "(string \<times> user_data) list"

record tracking_result =
  mac_address :: string
  identified_user :: "string option"
  res_is_randomized :: bool
  res_signal_strength :: int
  node_id :: string
  res_timestamp :: nat
  confidence :: real
  fingerprint :: device_fingerprint

definition new_tracker :: tracker where
  "new_tracker = \<lparr>mac_history = Map.empty, known_users = []\<rparr>"

definition known_ouis :: "(string \<times> string list) list" where
  "known_ouis =
     [(''Apple'', [''001EC2'', ''0050E4'', ''001D4F'', ''002608'', ''0023DF'']),
      (''Samsung'', [''001377'', ''002566'', ''001AA0'', ''0021FB'']),
      (''Google'', [''DA0E14'', ''F4F5E8'', ''3C5AB4''])]"

definition analyze_randomness :: "string \<Rightarrow> bool" where
  "analyze_randomness mac_clean =
     (let oui = take 6 mac_clean
      in if \<not> list_ex (\<lambda>ouis. oui \<in> set ouis) (map snd known_ouis) then True else False)"

definition locally_administered :: "string \<Rightarrow> py_error + bool" where
  \<comment> \<open>the first indicator, \<open>int(mac[1], 16) & 0x2 != 0\<close>\<close>
  "locally_administered mac_clean =
     (if length mac_clean < 2 then Inl IndexError
      else case py_int16 [mac_clean ! 1] of
             None \<Rightarrow> Inl ValueError
           | Some d \<Rightarrow> Inr (d AND 2 \<noteq> 0))"

definition detect_randomized_mac :: "string \<Rightarrow> py_error + bool" where
  \<comment> \<open>\<open>any\<close> runs the four indicators in order and stops at the first that holds\<close>
  "detect_randomized_mac mac_addr =
     (let mac_clean = py_upper (py_remove (CHR '':'') mac_addr)
      in case locally_administered mac_clean of
           Inl e \<Rightarrow> Inl e
         | Inr b \<Rightarrow>
             if b then Inr True
             else if list_ex (startswith mac_clean) [''02'', ''06'', ''0A'', ''0E''] then Inr True
             else if list_ex (startswith mac_clean) [''DA'', ''DE'', ''D6'', ''D2''] then Inr True
             else Inr (analyze_randomness mac_clean))"

definition register_user :: "tracker \<Rightarrow> string \<Rightarrow> string \<Rightarrow> nat \<Rightarrow> bool \<times> tracker" where
  \<comment> \<open>the dict entry is built, detector call included, before it is stored; an exception
      at any point ends in the \<open>except\<close> branch, which returns False\<close>
  "register_user st nm mac_addr now =
     (case detect_randomized_mac mac_addr of
        Inl e \<Rightarrow> (False, st)
      | Inr r \<Rightarrow>
          let st' = st\<lparr>known_users := AList.update mac_addr
                        \<lparr>ud_name = nm, registered_at = now, ud_mac_history = [mac_addr],
                         is_randomized = r\<rparr> (known_users st)\<rparr>
          in case detect_randomized_mac mac_addr of
               Inl e \<Rightarrow> (False, st')
             | Inr r' \<Rightarrow> if r' then (False, st') else (True, st'))"

definition vendor_map :: "(string \<times> string) list" where
  "vendor_map =
     [(''001EC2'', ''Apple''), (''002608'', ''Apple''), (''DA0E14'', ''Google''),
      (''001377'', ''Samsung'')]"

definition get_vendor_info :: "string \<Rightarrow> string" where
  "get_vendor_info m =
     (let oui = py_upper (take 6 (py_remove (CHR '':'') m))
      in case map_of vendor_map oui of Some v \<Rightarrow> v | None \<Rightarrow> ''Unknown'')"

definition create_device_fingerprint ::
  "tracker \<Rightarrow> string \<Rightarrow> int \<Rightarrow> string \<Rightarrow> (string \<times> string) list option \<Rightarrow> nat
     \<Rightarrow> device_fingerprint \<times> tracker" where
  "create_device_fingerprint st m sig nid capabilities now =
     (let h0 = (case mac_history st m of None \<Rightarrow> [] | Some h \<Rightarrow> h);
          h1 = h0 @ [\<lparr>s_signal = sig, s_node = nid, s_timestamp = now\<rparr>];
          h2 = (if length h1 > 50 then py_last 50 h1 else h1);
          st' = st\<lparr>mac_history := (mac_history st)(m \<mapsto> h2)\<rparr>
      in (\<lparr>current_mac = m, signal_strength = sig,
           signal_pattern = map s_signal (py_last 10 h2),
           connection_time = now,
           movement_pattern = map s_node (py_last 5 h2),
           device_capabilities = (case capabilities of None \<Rightarrow> [] | Some c \<Rightarrow> c),
           vendor_info = get_vendor_info m\<rparr>, st'))"

definition signal_pattern_similarity :: "int list \<Rightarrow> int list \<Rightarrow> real" where
  "signal_pattern_similarity pattern1 pattern2 =
     (if pattern1 = [] \<or> pattern2 = [] then 0.0
      else let min_len = min (length pattern1) (length pattern2)
           in if min_len < 3 then 0.0
              else let p1 = py_last min_len pattern1;
                       p2 = py_last min_len pattern2;
                       diff_sum = (\<Sum>(a, b)\<leftarrow>zip p1 p2. \<bar>a - b\<bar>);
                       max_diff = min_len * 100
                   in max 0 (1 - real_of_int diff_sum / real max_diff))"

definition movement_pattern_similarity :: "string list \<Rightarrow> string list \<Rightarrow> real" where
  "movement_pattern_similarity pattern1 pattern2 =
     (if pattern1 = [] \<or> pattern2 = [] then 0.0
      else let total_sequences = max (length pattern1) (length pattern2);
               common_sequences =
                 length (filter (\<lambda>i. pattern1 ! (length pattern1 - (i + 1))
                                       = pattern2 ! (length pattern2 - (i + 1)))
                           [0..<min (length pattern1) (length pattern2)])
           in if total_sequences > 0 then real common_sequences / real total_sequences
              else 0.0)"

definition calculate_similarity_score ::
  "tracker \<Rightarrow> device_fingerprint \<Rightarrow> string \<Rightarrow> user_data \<Rightarrow> real" where
  "calculate_similarity_score st fp stored_mac ud =
     (let stored_vendor = get_vendor_info stored_mac;
          score1 = (if stored_vendor = vendor_info fp \<and> stored_vendor \<noteq> ''Unknown''
                    then 0.0 + 0.3 else 0.0);
          score2 = (case mac_history st stored_mac of
                      None \<Rightarrow> score1
                    | Some h \<Rightarrow>
                        if length h > 5
                           \<and> signal_pattern_similarity (signal_pattern fp)
                                (map s_signal (py_last 10 h)) > 0.8
                        then score1 + 0.4 else score1);
          score3 = (case mac_history st stored_mac of
                      None \<Rightarrow> score2
                    | Some h \<Rightarrow>
                        if movement_pattern_similarity (movement_pattern fp)
                             (map s_node (py_last 5 h)) > 0.6
                        then score2 + 0.3 else score2);
          factors = (3::nat)
      in if factors > 0 then score3 / real factors else 0.0)"

definition match_step ::
  "tracker \<Rightarrow> device_fingerprint \<Rightarrow> string \<times> user_data \<Rightarrow> string option \<times> real
     \<Rightarrow> string option \<times> real" where
  \<comment> \<open>one pass of the loop body over \<open>(best_match, best_score)\<close>\<close>
  "match_step st fp entry best =
     (if is_randomized (snd entry)
      then let score = calculate_similarity_score st fp (fst entry) (snd entry)
           in if score > snd best \<and> score > 0.7 then (Some (ud_name (snd entry)), score)
              else best
      else best)"

definition find_potential_user_match :: "tracker \<Rightarrow> device_fingerprint \<Rightarrow> string option" where
  "find_potential_user_match st fp =
     (case map_of (known_users st) (current_mac fp) of
        Some ud \<Rightarrow> Some (ud_name ud)
      | None \<Rightarrow> fst (fold (match_step st fp) (known_users st) (None, 0)))"

definition track_device ::
  "tracker \<Rightarrow> string \<Rightarrow> int \<Rightarrow> string \<Rightarrow> (string \<times> string) list option \<Rightarrow> nat
     \<Rightarrow> (py_error + tracking_result) \<times> tracker" where
  \<comment> \<open>the sample is stored before the detector runs, so it stays stored when the detector
      raises; a name is truthy when it is not the empty string\<close>
  "track_device st m sig nid capabilities now =
     (let (fp, st') = create_device_fingerprint st m sig nid capabilities now;
          user = find_potential_user_match st' fp
      in case detect_randomized_mac m of
           Inl e \<Rightarrow> (Inl e, st')
         | Inr randomized \<Rightarrow>
             (Inr \<lparr>mac_address = m, identified_user = user, res_is_randomized = randomized,
                   res_signal_strength = sig, node_id = nid, res_timestamp = now,
                   confidence = (if user \<noteq> None \<and> user \<noteq> Some [] \<and> \<not> randomized
                                 then 1.0 else 0.5),
                   fingerprint = fp\<rparr>, st'))"

section \<open>Definitions used to state the claims\<close>

text \<open>
  Repeated recording for one MAC: the samples \<open>(signal, node, clock)\<close> are handed, in
  arrival order, to \<open>create_device_fingerprint\<close> (the tracker) or to
  \<open>update_device_history\<close> (the detector).
\<close>

definition sample_of :: "int \<times> string \<times> nat \<Rightarrow> signal_sample" where
  "sample_of x = \<lparr>s_signal = fst x, s_node = fst (snd x), s_timestamp = snd (snd x)\<rparr>"

definition record_all :: "tracker \<Rightarrow> string \<Rightarrow> (int \<times> string \<times> nat) list \<Rightarrow> tracker" where
  "record_all st m xs =
     fold (\<lambda>x s. snd (create_device_fingerprint s m (fst x) (fst (snd x)) None (snd (snd x))))
       xs st"

definition update_all :: "detector \<Rightarrow> string \<Rightarrow> (int \<times> string \<times> nat) list \<Rightarrow> detector" where
  "update_all st m xs =
     fold (\<lambda>x s. update_device_history s m (fst x) (fst (snd x)) (snd (snd x))) xs st"

definition history_of :: "tracker \<Rightarrow> string \<Rightarrow> signal_sample list" where
  "history_of st m = (case mac_history st m of None \<Rightarrow> [] | Some h \<Rightarrow> h)"

definition pattern_of :: "detector \<Rightarrow> string \<Rightarrow> int list" where
  "pattern_of st m = (case device_history st m of None \<Rightarrow> [] | Some d \<Rightarrow> di_signal_pattern d)"

text \<open>
  The spec's wording of two notions the claims use: the sample standard deviation
  (divisor \<open>n - 1\<close>), and a well-formed MAC address (six pairs of hex digits separated
  by colons).
\<close>

definition sample_stddev :: "int list \<Rightarrow> real" where
  "sample_stddev signals =
     (if length signals < 2 then 0
      else let avg = real_of_int (sum_list signals) / real (length signals)
           in sqrt ((\<Sum>s\<leftarrow>signals. (real_of_int s - avg) ^ 2) / real (length signals - 1)))"

definition valid_mac_format :: "string \<Rightarrow> bool" where
  "valid_mac_format m =
     (length m = 17 \<and>
      list_all (\<lambda>i. if i mod 3 = 2 then m ! i = CHR '':'' else hex_digit (m ! i) \<noteq> None)
        [0..<17])"

section \<open>Evaluation rules\<close>

lemmas string_eval =
  py_upper_def upper_char_def char_of_def bit_Suc_0_iff py_remove_def startswith_def
  py_int16_def py_strip_def py_isspace_def hex_digit_def


section \<open>Auxiliary facts\<close>

lemma detect_AABB: "detect_randomized_mac ''AA:BB:CC:DD:EE:FF'' = Inr True"
  by (simp add: detect_randomized_mac_def locally_administered_def string_eval)

lemma map_of_update_same: "map_of (AList.update k v al) k = Some v"
  by (simp add: update_conv')

lemma find_exact:
  "map_of (known_users st) (current_mac fp) = Some ud \<Longrightarrow>
   find_potential_user_match st fp = Some (ud_name ud)"
  by (simp add: find_potential_user_match_def)

lemma create_fp_sel [simp]:
  "current_mac (fst (create_device_fingerprint st m sig nid caps now)) = m"
  "known_users (snd (create_device_fingerprint st m sig nid caps now)) = known_users st"
  by (simp_all add: create_device_fingerprint_def Let_def)

lemma track_device_ok:
  assumes "detect_randomized_mac m = Inr r"
  shows "fst (track_device st m sig nid caps now) =
     Inr \<lparr>mac_address = m,
          identified_user = find_potential_user_match
             (snd (create_device_fingerprint st m sig nid caps now))
             (fst (create_device_fingerprint st m sig nid caps now)),
          res_is_randomized = r, res_signal_strength = sig, node_id = nid,
          res_timestamp = now,
          confidence =
            (if find_potential_user_match
                  (snd (create_device_fingerprint st m sig nid caps now))
                  (fst (create_device_fingerprint st m sig nid caps now)) \<notin> {None, Some []}
                \<and> \<not> r then 1.0 else 0.5),
          fingerprint = fst (create_device_fingerprint st m sig nid caps now)\<rparr>"
  using assms by (simp add: track_device_def Let_def split: prod.splits)

lemma register_user_ok:
  assumes "detect_randomized_mac m = Inr r"
  shows "register_user st nm m now =
     (\<not> r, st\<lparr>known_users := AList.update m
                  \<lparr>ud_name = nm, registered_at = now, ud_mac_history = [m],
                   is_randomized = r\<rparr> (known_users st)\<rparr>)"
  using assms by (simp add: register_user_def Let_def)

section \<open>Registering and tracking AA:BB:CC:DD:EE:FF\<close>

text \<open>
  Claim C1, as stated, at the name \<open>Glenn\<close> and a fresh tracker: the tracking result
  names the registered user, but the detector flags the address (the second hex digit
  \<open>A\<close> has the locally-administered bit), so \<open>is_randomized\<close> is true and the confidence
  is 0.5, not false and 1.0.
\<close>

theorem track_registered_AABB_is_randomized:
  "fst (track_device (snd (register_user new_tracker ''Glenn'' ''AA:BB:CC:DD:EE:FF'' 0))
         ''AA:BB:CC:DD:EE:FF'' (-45) ''node_001'' None 1)
   = Inr \<lparr>mac_address = ''AA:BB:CC:DD:EE:FF'', identified_user = Some ''Glenn'',
           res_is_randomized = True, res_signal_strength = -45, node_id = ''node_001'',
           res_timestamp = 1, confidence = 0.5,
           fingerprint = \<lparr>current_mac = ''AA:BB:CC:DD:EE:FF'', signal_strength = -45,
              signal_pattern = [-45], connection_time = 1,
              movement_pattern = [''node_001''], device_capabilities = [],
              vendor_info = ''Unknown''\<rparr>\<rparr>"
proof -
  have v: "get_vendor_info ''AA:BB:CC:DD:EE:FF'' = ''Unknown''"
    by (simp add: get_vendor_info_def vendor_map_def string_eval)
  show ?thesis
    by (simp add: track_device_def register_user_def detect_AABB create_device_fingerprint_def
        new_tracker_def find_potential_user_match_def py_last_def v)
qed

text \<open>
  Claim C1, amended: from any tracker state and for any name, registering
  \<open>AA:BB:CC:DD:EE:FF\<close> returns false (the address is flagged as randomized), and tracking
  it afterwards with signal -45 at \<open>node_001\<close> returns a result whose identified user is
  the registered name, whose \<open>is_randomized\<close> is true and whose confidence is 0.5.
\<close>

theorem register_then_track_AABB:
  "fst (register_user st nm ''AA:BB:CC:DD:EE:FF'' now) = False
   \<and> (case fst (track_device (snd (register_user st nm ''AA:BB:CC:DD:EE:FF'' now))
                  ''AA:BB:CC:DD:EE:FF'' (-45) ''node_001'' caps now') of
        Inl e \<Rightarrow> False
      | Inr r \<Rightarrow> identified_user r = Some nm \<and> res_is_randomized r \<and> confidence r = 0.5)"
  by (simp add: track_device_ok [OF detect_AABB] register_user_ok [OF detect_AABB]
        find_exact map_of_update_same)

theorem register_then_track_AABB_witness:
  "fst (register_user new_tracker ''Ada'' ''AA:BB:CC:DD:EE:FF'' 3) = False
   \<and> (case fst (track_device (snd (register_user new_tracker ''Ada'' ''AA:BB:CC:DD:EE:FF'' 3))
                  ''AA:BB:CC:DD:EE:FF'' (-45) ''node_001'' None 4) of
        Inl e \<Rightarrow> False
      | Inr r \<Rightarrow> identified_user r = Some ''Ada'' \<and> res_is_randomized r \<and> confidence r = 0.5)"
  by (rule register_then_track_AABB)

section \<open>The OUI tables share a prefix\<close>

text \<open>
  Claim C3 says that no OUI prefix is a key of both tables. The prefix \<open>04:18:D6\<close> is a
  key of both: \<open>Samsung Android\<close> in the mobile table, \<open>Ubiquiti UniFi AP\<close> in the
  infrastructure table. The module's own demo lists \<open>04:18:D6:9A:BC:DE\<close> as a Ubiquiti
  access point; the mobile table is consulted first, so the classifier reports it as a
  Samsung handset.
\<close>

theorem oui_tables_share_0418D6:
  "mobile_ouis ''04:18:D6'' = Some ''Samsung Android''
   \<and> infrastructure_ouis ''04:18:D6'' = Some ''Ubiquiti UniFi AP''
   \<and> is_mobile_device st ''04:18:D6:9A:BC:DE'' = (True, 0.95, Label ''Samsung Android'')"
proof -
  have m: "mobile_ouis ''04:18:D6'' = Some ''Samsung Android''"
    by (simp add: mobile_ouis_def mobile_oui_entries_def)
  have i: "infrastructure_ouis ''04:18:D6'' = Some ''Ubiquiti UniFi AP''"
    by (simp add: infrastructure_ouis_def infrastructure_oui_entries_def)
  have o: "format_oui (get_oui ''04:18:D6:9A:BC:DE'') = ''04:18:D6''"
    by (simp add: format_oui_def get_oui_def string_eval)
  show ?thesis using m i o by (simp add: is_mobile_device_def)
qed


section \<open>The identity matcher never accepts a heuristic match\<close>

lemma similarity_score_le:
  "calculate_similarity_score st fp stored_mac ud \<le> 1 / 3"
  by (simp add: calculate_similarity_score_def Let_def split: option.splits)

lemma match_step_keeps_none:
  "match_step st fp entry (None, 0) = (None, 0)"
  using similarity_score_le [of st fp "fst entry" "snd entry"]
  by (simp add: match_step_def Let_def)

lemma fold_match_step_none:
  "fold (match_step st fp) xs (None, 0) = (None, 0)"
  by (induction xs) (simp_all add: match_step_keeps_none)

text \<open>
  Claim C2: the similarity score of any fingerprint against any stored registration is at
  most \<open>(0.3 + 0.4 + 0.3) / 3 = 1/3\<close>, which is below the acceptance threshold 0.7; so
  when the fingerprint's MAC is not a key of \<open>known_users\<close>, the loop leaves
  \<open>best_match\<close> untouched and \<open>find_potential_user_match\<close> returns absent.
\<close>

theorem no_heuristic_match:
  "calculate_similarity_score st fp stored_mac ud \<le> 1 / 3
   \<and> (current_mac fp \<notin> fst ` set (known_users st) \<longrightarrow>
        find_potential_user_match st fp = None)"
proof (intro conjI impI)
  show "calculate_similarity_score st fp stored_mac ud \<le> 1 / 3"
    by (rule similarity_score_le)
next
  assume "current_mac fp \<notin> fst ` set (known_users st)"
  then have "map_of (known_users st) (current_mac fp) = None"
    by (simp add: map_of_eq_None_iff)
  then show "find_potential_user_match st fp = None"
    by (simp add: find_potential_user_match_def fold_match_step_none)
qed

theorem no_heuristic_match_witness:
  "current_mac \<lparr>current_mac = ''11:22:33:44:55:66'', signal_strength = -50,
        signal_pattern = [-50], connection_time = 1, movement_pattern = [''node_002''],
        device_capabilities = [], vendor_info = ''Google''\<rparr>
     \<notin> fst ` set (known_users \<lparr>mac_history = Map.empty, known_users =
          [(''DA:0E:14:12:34:56'', \<lparr>ud_name = ''Glenn'', registered_at = 0,
             ud_mac_history = [''DA:0E:14:12:34:56''], is_randomized = True\<rparr>)]\<rparr>)
   \<and> find_potential_user_match
        \<lparr>mac_history = Map.empty, known_users =
          [(''DA:0E:14:12:34:56'', \<lparr>ud_name = ''Glenn'', registered_at = 0,
             ud_mac_history = [''DA:0E:14:12:34:56''], is_randomized = True\<rparr>)]\<rparr>
        \<lparr>current_mac = ''11:22:33:44:55:66'', signal_strength = -50,
        signal_pattern = [-50], connection_time = 1, movement_pattern = [''node_002''],
        device_capabilities = [], vendor_info = ''Google''\<rparr> = None"
  using no_heuristic_match [of "\<lparr>mac_history = Map.empty, known_users =
          [(''DA:0E:14:12:34:56'', \<lparr>ud_name = ''Glenn'', registered_at = 0,
             ud_mac_history = [''DA:0E:14:12:34:56''], is_randomized = True\<rparr>)]\<rparr>"
        "\<lparr>current_mac = ''11:22:33:44:55:66'', signal_strength = -50,
        signal_pattern = [-50], connection_time = 1, movement_pattern = [''node_002''],
        device_capabilities = [], vendor_info = ''Google''\<rparr>"]
  by simp

section \<open>Signal-pattern similarity\<close>

lemma abs_diff_zip_commute:
  "(\<Sum>(a, b)\<leftarrow>zip xs ys. \<bar>a - b\<bar>) = (\<Sum>(a, b)\<leftarrow>zip ys xs. \<bar>a - b :: int\<bar>)"
proof (induction xs arbitrary: ys)
  case Nil
  then show ?case by simp
next
  case (Cons x xs)
  then show ?case by (cases ys) (simp_all add: abs_minus_commute)
qed

lemma signal_similarity_sym:
  "signal_pattern_similarity p1 p2 = signal_pattern_similarity p2 p1"
  by (simp add: signal_pattern_similarity_def Let_def min.commute abs_diff_zip_commute disj_commute)

lemma abs_diff_zip_nth:
  assumes "length xs = n" "length ys = n"
  shows "(\<Sum>(a, b)\<leftarrow>zip xs ys. \<bar>a - b\<bar>) = (\<Sum>i<n. \<bar>xs ! i - ys ! i :: int\<bar>)"
proof -
  have "(\<Sum>(a, b)\<leftarrow>zip xs ys. \<bar>a - b\<bar>) = (\<Sum>i = 0..<n. map (\<lambda>(a, b). \<bar>a - b\<bar>) (zip xs ys) ! i)"
    using assms by (simp add: sum_list_sum_nth)
  also have "\<dots> = (\<Sum>i = 0..<n. \<bar>xs ! i - ys ! i\<bar>)"
    using assms by (intro sum.cong) simp_all
  finally show ?thesis by (simp add: lessThan_atLeast0)
qed

lemma py_last_pos: "0 < n \<Longrightarrow> py_last n xs = drop (length xs - n) xs"
  by (simp add: py_last_def)

text \<open>
  Claim C10: the similarity of two integer patterns does not depend on their order; it
  is 0 when the overlap \<open>N = min len1 len2\<close> is below 3; otherwise it is
  \<open>max 0 (1 - (\<Sum> |a_i - b_i|) / (N * 100))\<close>, the sum running over the last \<open>N\<close>
  elements of each pattern, paired position by position.
\<close>

theorem signal_pattern_similarity_spec:
  "signal_pattern_similarity p1 p2 = signal_pattern_similarity p2 p1
   \<and> (min (length p1) (length p2) < 3 \<longrightarrow> signal_pattern_similarity p1 p2 = 0)
   \<and> (3 \<le> min (length p1) (length p2) \<longrightarrow>
        signal_pattern_similarity p1 p2 =
          max 0 (1 - real_of_int (\<Sum>i<min (length p1) (length p2).
                     \<bar>p1 ! (length p1 - min (length p1) (length p2) + i)
                      - p2 ! (length p2 - min (length p1) (length p2) + i)\<bar>)
                   / real (min (length p1) (length p2) * 100)))"
proof (intro conjI impI)
  show "signal_pattern_similarity p1 p2 = signal_pattern_similarity p2 p1"
    by (rule signal_similarity_sym)
next
  assume "min (length p1) (length p2) < 3"
  then show "signal_pattern_similarity p1 p2 = 0"
    by (simp add: signal_pattern_similarity_def Let_def)
next
  define n where "n = min (length p1) (length p2)"
  assume "3 \<le> min (length p1) (length p2)"
  then have n: "3 \<le> n" "n \<le> length p1" "n \<le> length p2"
    by (simp_all add: n_def)
  then have ne: "p1 \<noteq> []" "p2 \<noteq> []" "\<not> n < 3" by auto
  have pl: "py_last n p1 = drop (length p1 - n) p1" "py_last n p2 = drop (length p2 - n) p2"
    using n by (simp_all add: py_last_pos)
  have l: "length (drop (length p1 - n) p1) = n" "length (drop (length p2 - n) p2) = n"
    using n by simp_all
  have s: "(\<Sum>(a, b)\<leftarrow>zip (py_last n p1) (py_last n p2). \<bar>a - b\<bar>)
      = (\<Sum>i<n. \<bar>p1 ! (length p1 - n + i) - p2 ! (length p2 - n + i)\<bar>)"
    unfolding pl abs_diff_zip_nth [OF l] by (intro sum.cong) simp_all
  have "signal_pattern_similarity p1 p2 =
          max 0 (1 - real_of_int (\<Sum>i<n. \<bar>p1 ! (length p1 - n + i) - p2 ! (length p2 - n + i)\<bar>)
                   / real (n * 100))"
    using ne s by (simp add: signal_pattern_similarity_def Let_def n_def [symmetric])
  then show "signal_pattern_similarity p1 p2 =
          max 0 (1 - real_of_int (\<Sum>i<min (length p1) (length p2).
                     \<bar>p1 ! (length p1 - min (length p1) (length p2) + i)
                      - p2 ! (length p2 - min (length p1) (length p2) + i)\<bar>)
                   / real (min (length p1) (length p2) * 100))"
    by (simp only: n_def)
qed

theorem signal_pattern_similarity_spec_witness:
  "3 \<le> min (length [1, 2, 3, 4 :: int]) (length [3, 2, 1 :: int])
   \<and> signal_pattern_similarity [1, 2, 3, 4] [3, 2, 1] = signal_pattern_similarity [3, 2, 1] [1, 2, 3, 4]
   \<and> signal_pattern_similarity [1, 2, 3, 4] [3, 2, 1] = 59 / 60"
  using signal_pattern_similarity_spec [of "[1, 2, 3, 4]" "[3, 2, 1]"]
  by (simp add: lessThan_nat_numeral lessThan_Suc)


section \<open>Bounded histories\<close>

lemma trim_append:
  "drop (length (drop (length A - c) A @ B) - c) (drop (length A - c) A @ B)
     = drop (length (A @ B) - c) (A @ B)"
proof -
  have "drop (length A - c) A @ B = drop (length A - c) (A @ B)" by simp
  then show ?thesis by (auto simp del: drop_append intro: arg_cong2 [where f = drop])
qed

lemma history_of_create:
  "history_of (snd (create_device_fingerprint st m sig nid caps now)) m
     = drop (length (history_of st m @ [\<lparr>s_signal = sig, s_node = nid, s_timestamp = now\<rparr>]) - 50)
         (history_of st m @ [\<lparr>s_signal = sig, s_node = nid, s_timestamp = now\<rparr>])"
  by (simp add: create_device_fingerprint_def history_of_def Let_def py_last_def)

lemma mac_history_create:
  "mac_history (snd (create_device_fingerprint st m sig nid caps now)) m \<noteq> None"
  by (simp add: create_device_fingerprint_def Let_def)

lemma history_of_record_all:
  "xs \<noteq> [] \<Longrightarrow>
   history_of (record_all st m xs) m
     = drop (length (history_of st m @ map sample_of xs) - 50) (history_of st m @ map sample_of xs)"
proof (induction xs arbitrary: st)
  case Nil
  then show ?case by simp
next
  case (Cons x xs)
  let ?st = "snd (create_device_fingerprint st m (fst x) (fst (snd x)) None (snd (snd x)))"
  have r: "record_all st m (x # xs) = record_all ?st m xs"
    by (simp add: record_all_def)
  have h: "history_of ?st m
     = drop (length (history_of st m @ [sample_of x]) - 50) (history_of st m @ [sample_of x])"
    by (simp add: history_of_create sample_of_def)
  show ?case
  proof (cases "xs = []")
    case True
    then show ?thesis using h by (simp add: record_all_def)
  next
    case False
    have "history_of (record_all ?st m xs) m
        = drop (length (history_of ?st m @ map sample_of xs) - 50) (history_of ?st m @ map sample_of xs)"
      using Cons.IH [OF False] .
    also have "\<dots> = drop (length ((history_of st m @ [sample_of x]) @ map sample_of xs) - 50)
                     ((history_of st m @ [sample_of x]) @ map sample_of xs)"
      unfolding h by (rule trim_append)
    finally show ?thesis using r by simp
  qed
qed

lemma mac_history_record_all:
  "xs \<noteq> [] \<Longrightarrow> mac_history (record_all st m xs) m \<noteq> None"
proof (induction xs arbitrary: st rule: rev_induct)
  case Nil
  then show ?case by simp
next
  case (snoc x xs)
  show ?case by (simp add: record_all_def mac_history_create)
qed

lemma pattern_of_update:
  "pattern_of (update_device_history st m sig nid now) m
     = drop (length (pattern_of st m @ [sig]) - 20) (pattern_of st m @ [sig])"
  by (simp add: update_device_history_def pattern_of_def Let_def py_last_def split: option.splits)

lemma device_history_update:
  "device_history (update_device_history st m sig nid now) m \<noteq> None"
  by (simp add: update_device_history_def Let_def split: option.splits)

lemma pattern_of_update_all:
  "xs \<noteq> [] \<Longrightarrow>
   pattern_of (update_all st m xs) m
     = drop (length (pattern_of st m @ map fst xs) - 20) (pattern_of st m @ map fst xs)"
proof (induction xs arbitrary: st)
  case Nil
  then show ?case by simp
next
  case (Cons x xs)
  let ?st = "update_device_history st m (fst x) (fst (snd x)) (snd (snd x))"
  have r: "update_all st m (x # xs) = update_all ?st m xs"
    by (simp add: update_all_def)
  have h: "pattern_of ?st m
     = drop (length (pattern_of st m @ [fst x]) - 20) (pattern_of st m @ [fst x])"
    by (rule pattern_of_update)
  show ?case
  proof (cases "xs = []")
    case True
    then show ?thesis using h by (simp add: update_all_def)
  next
    case False
    have "pattern_of (update_all ?st m xs) m
        = drop (length (pattern_of ?st m @ map fst xs) - 20) (pattern_of ?st m @ map fst xs)"
      using Cons.IH [OF False] .
    also have "\<dots> = drop (length ((pattern_of st m @ [fst x]) @ map fst xs) - 20)
                     ((pattern_of st m @ [fst x]) @ map fst xs)"
      unfolding h by (rule trim_append)
    finally show ?thesis using r by simp
  qed
qed

lemma device_history_update_all:
  "xs \<noteq> [] \<Longrightarrow> device_history (update_all st m xs) m \<noteq> None"
proof (induction xs arbitrary: st rule: rev_induct)
  case Nil
  then show ?case by simp
next
  case (snoc x xs)
  show ?case by (simp add: update_all_def device_history_update)
qed

text \<open>
  Claim C8, amended. After one or more recordings for one MAC, from any state:
  the tracker's \<open>mac_history\<close> entry (written by \<open>create_device_fingerprint\<close>) holds at
  most 50 samples, exactly the most recent 50 of everything recorded, in arrival order;
  the detector's \<open>signal_pattern\<close> (written by \<open>update_device_history\<close>, the store
  whose update recomputes the behavior score) holds at most 20 values, exactly the most
  recent 20, in arrival order.
\<close>

theorem history_keeps_most_recent:
  assumes "xs \<noteq> []"
  shows "mac_history (record_all st m xs) m
           = Some (drop (length (history_of st m @ map sample_of xs) - 50)
                     (history_of st m @ map sample_of xs))
         \<and> length (history_of (record_all st m xs) m) \<le> 50
         \<and> map_option di_signal_pattern (device_history (update_all dt m xs) m)
           = Some (drop (length (pattern_of dt m @ map fst xs) - 20)
                     (pattern_of dt m @ map fst xs))
         \<and> length (pattern_of (update_all dt m xs) m) \<le> 20"
proof -
  have a: "history_of (record_all st m xs) m
     = drop (length (history_of st m @ map sample_of xs) - 50) (history_of st m @ map sample_of xs)"
    using assms by (rule history_of_record_all)
  have b: "pattern_of (update_all dt m xs) m
     = drop (length (pattern_of dt m @ map fst xs) - 20) (pattern_of dt m @ map fst xs)"
    using assms by (rule pattern_of_update_all)
  have a': "mac_history (record_all st m xs) m = Some (history_of (record_all st m xs) m)"
    using mac_history_record_all [OF assms, of st m] by (auto simp add: history_of_def)
  have b': "map_option di_signal_pattern (device_history (update_all dt m xs) m)
      = Some (pattern_of (update_all dt m xs) m)"
    using device_history_update_all [OF assms, of dt m] by (auto simp add: pattern_of_def)
  show ?thesis unfolding a' b' unfolding a b
    by (intro conjI refl) (simp_all del: drop_append)
qed


text \<open>
  Claim C8, as stated, at 21 recordings into a fresh detector: the 21 samples are all among
  the most recent 50, yet \<open>update_device_history\<close> retains only the last 20 of them; the
  first is gone.
\<close>

theorem detector_history_keeps_20:
  "map_option di_signal_pattern
     (device_history
        (update_all \<lparr>device_history = Map.empty\<rparr> ''3C:5A:B4:00:00:01''
           [(-1, ''node_001'', 1), (-2, ''node_001'', 2), (-3, ''node_001'', 3),
            (-4, ''node_001'', 4), (-5, ''node_001'', 5), (-6, ''node_001'', 6),
            (-7, ''node_001'', 7), (-8, ''node_001'', 8), (-9, ''node_001'', 9),
            (-10, ''node_001'', 10), (-11, ''node_001'', 11), (-12, ''node_001'', 12),
            (-13, ''node_001'', 13), (-14, ''node_001'', 14), (-15, ''node_001'', 15),
            (-16, ''node_001'', 16), (-17, ''node_001'', 17), (-18, ''node_001'', 18),
            (-19, ''node_001'', 19), (-20, ''node_001'', 20), (-21, ''node_001'', 21)])
        ''3C:5A:B4:00:00:01'')
   = Some [-2, -3, -4, -5, -6, -7, -8, -9, -10, -11, -12, -13, -14, -15, -16, -17, -18, -19,
           -20, -21]"
proof -
  let ?xs = "[(-1, ''node_001'', 1), (-2, ''node_001'', 2), (-3, ''node_001'', 3),
            (-4, ''node_001'', 4), (-5, ''node_001'', 5), (-6, ''node_001'', 6),
            (-7, ''node_001'', 7), (-8, ''node_001'', 8), (-9, ''node_001'', 9),
            (-10, ''node_001'', 10), (-11, ''node_001'', 11), (-12, ''node_001'', 12),
            (-13, ''node_001'', 13), (-14, ''node_001'', 14), (-15, ''node_001'', 15),
            (-16, ''node_001'', 16), (-17, ''node_001'', 17), (-18, ''node_001'', 18),
            (-19, ''node_001'', 19), (-20, ''node_001'', 20), (-21, ''node_001'', 21)]
            :: (int \<times> string \<times> nat) list"
  let ?d = "update_all \<lparr>device_history = Map.empty\<rparr> ''3C:5A:B4:00:00:01'' ?xs"
  have "pattern_of ?d ''3C:5A:B4:00:00:01''
      = drop (length (pattern_of \<lparr>device_history = Map.empty\<rparr> ''3C:5A:B4:00:00:01'' @ map fst ?xs) - 20)
          (pattern_of \<lparr>device_history = Map.empty\<rparr> ''3C:5A:B4:00:00:01'' @ map fst ?xs)"
    by (rule pattern_of_update_all) simp
  moreover have "device_history ?d ''3C:5A:B4:00:00:01'' \<noteq> None"
    by (rule device_history_update_all) simp
  ultimately show ?thesis
    by (auto simp add: pattern_of_def)
qed

theorem history_keeps_most_recent_witness:
  "[(-45, ''node_001'', 1), (-47, ''node_002'', 2)] \<noteq> ([] :: (int \<times> string \<times> nat) list)
   \<and> mac_history (record_all new_tracker ''3C:5A:B4:00:00:01''
         [(-45, ''node_001'', 1), (-47, ''node_002'', 2)]) ''3C:5A:B4:00:00:01''
       = Some [\<lparr>s_signal = -45, s_node = ''node_001'', s_timestamp = 1\<rparr>,
               \<lparr>s_signal = -47, s_node = ''node_002'', s_timestamp = 2\<rparr>]
   \<and> map_option di_signal_pattern
         (device_history (update_all \<lparr>device_history = Map.empty\<rparr> ''3C:5A:B4:00:00:01''
         [(-45, ''node_001'', 1), (-47, ''node_002'', 2)]) ''3C:5A:B4:00:00:01'')
       = Some [-45, -47]"
  using history_keeps_most_recent [of "[(-45, ''node_001'', 1), (-47, ''node_002'', 2)]" new_tracker
      "''3C:5A:B4:00:00:01''" "\<lparr>device_history = Map.empty\<rparr>"]
  by (simp add: history_of_def pattern_of_def new_tracker_def sample_of_def)



section \<open>Classification of unknown devices\<close>

lemma stddev_examples:
  "calculate_signal_variance [-40, -54] = 7"
  "calculate_signal_variance [-40, -60] = 10"
  "sample_stddev [-40, -54] = sqrt 98"
  by (simp_all add: calculate_signal_variance_def sample_stddev_def)

lemma two_observations:
  "update_all \<lparr>device_history = Map.empty\<rparr> ''00:11:22:33:44:55''
       [(a, ''entrance'', 1), (b, ''entrance'', 2)]
   = \<lparr>device_history = [''00:11:22:33:44:55'' \<mapsto>
        \<lparr>di_mac = ''00:11:22:33:44:55'', di_vendor = ''Unknown'', di_device_type = ''Unknown'',
         di_confidence = 0, di_first_seen = 1, di_signal_pattern = [a, b],
         di_behavior_score =
           min (calculate_signal_variance [a, b] / 15) 1 * 0.5 + 0.7 * 0.3 + 0.6 * 0.2\<rparr>]\<rparr>"
  by (simp add: update_all_def update_device_history_def py_last_def calculate_behavior_score_def
      Let_def)

lemma update_existing:
  assumes "device_history st m = Some d"
  shows "device_history (update_device_history st m sig nid now) m
     = Some (d\<lparr>di_signal_pattern :=
                 drop (length (pattern_of st m @ [sig]) - 20) (pattern_of st m @ [sig]),
               di_behavior_score := calculate_behavior_score
                 (d\<lparr>di_signal_pattern :=
                     drop (length (pattern_of st m @ [sig]) - 20) (pattern_of st m @ [sig])\<rparr>)\<rparr>)"
  using assms
  by (simp add: update_device_history_def pattern_of_def Let_def py_last_def)

lemma behavior_score_unfold:
  "calculate_behavior_score d =
     (let xs = di_signal_pattern d;
          n = length xs;
          avg = real_of_int (sum_list xs) / real n;
          stdDev = (if n < 2 then 0
                    else sqrt ((\<Sum>s\<leftarrow>xs. (real_of_int s - avg) ^ 2) / real n))
      in 0.5 * min (stdDev / 15.0) 1.0 + 0.3 * 0.7 + 0.2 * 0.6)"
  by (simp add: calculate_behavior_score_def calculate_signal_variance_def Let_def)

lemma oui_001122:
  "format_oui (get_oui ''00:11:22:33:44:55'') = ''00:11:22''"
  "mobile_ouis ''00:11:22'' = None"
  "infrastructure_ouis ''00:11:22'' = None"
  "\<not> is_randomized_mac ''00:11:22:33:44:55''"
  by (simp_all add: format_oui_def get_oui_def is_randomized_mac_def string_eval
      mobile_ouis_def mobile_oui_entries_def infrastructure_ouis_def infrastructure_oui_entries_def)

text \<open>
  Claim C6, as stated, with the standard deviation read as the spec words it, the sample
  standard deviation. The MAC \<open>00:11:22:33:44:55\<close> is in neither table and has no
  locally-administered bit; after the two observations -40 and -54 its history holds
  \<open>[-40, -54]\<close> and the behavior score 169/300. The formula with the sample standard
  deviation (\<open>sqrt 98\<close>) is above 0.7, yet the classifier reports the confidence 242/375
  and a static device: it works with the population standard deviation 7.
\<close>

theorem unknown_device_not_sample_stddev:
  "mobile_ouis (format_oui (get_oui ''00:11:22:33:44:55'')) = None
   \<and> infrastructure_ouis (format_oui (get_oui ''00:11:22:33:44:55'')) = None
   \<and> \<not> is_randomized_mac ''00:11:22:33:44:55''
   \<and> update_all \<lparr>device_history = Map.empty\<rparr> ''00:11:22:33:44:55''
         [(-40, ''entrance'', 1), (-54, ''entrance'', 2)]
       = \<lparr>device_history = [''00:11:22:33:44:55'' \<mapsto>
           \<lparr>di_mac = ''00:11:22:33:44:55'', di_vendor = ''Unknown'', di_device_type = ''Unknown'',
            di_confidence = 0, di_first_seen = 1, di_signal_pattern = [-40, -54],
            di_behavior_score = 169 / 300\<rparr>]\<rparr>
   \<and> is_mobile_device
         (update_all \<lparr>device_history = Map.empty\<rparr> ''00:11:22:33:44:55''
            [(-40, ''entrance'', 1), (-54, ''entrance'', 2)]) ''00:11:22:33:44:55''
       = (False, 242 / 375, Label ''Unknown Static Device'')
   \<and> 0.7 < 0.6 * min (sample_stddev [-40, -54] / 10) 1.0 + 0.4 * (169 / 300)"
proof -
  have s: "update_all \<lparr>device_history = Map.empty\<rparr> ''00:11:22:33:44:55''
         [(-40, ''entrance'', 1), (-54, ''entrance'', 2)]
       = \<lparr>device_history = [''00:11:22:33:44:55'' \<mapsto>
           \<lparr>di_mac = ''00:11:22:33:44:55'', di_vendor = ''Unknown'', di_device_type = ''Unknown'',
            di_confidence = 0, di_first_seen = 1, di_signal_pattern = [-40, -54],
            di_behavior_score = 169 / 300\<rparr>]\<rparr>"
    unfolding two_observations stddev_examples by simp
  have c: "is_mobile_device
         (update_all \<lparr>device_history = Map.empty\<rparr> ''00:11:22:33:44:55''
            [(-40, ''entrance'', 1), (-54, ''entrance'', 2)]) ''00:11:22:33:44:55''
       = (False, 242 / 375, Label ''Unknown Static Device'')"
    unfolding s
    by (simp add: is_mobile_device_def analyze_unknown_device_def oui_001122 stddev_examples
        signal_variance_threshold_def min_confidence_score_def)
  have "9 < sqrt 98"
    by (rule real_less_rsqrt) simp
  then have f: "0.7 < 0.6 * min (sample_stddev [-40, -54] / 10) 1.0 + 0.4 * (169 / 300)"
    unfolding stddev_examples by (simp add: min_def)
  show ?thesis using s c f oui_001122 by simp
qed

text \<open>
  Claim C6, amended. For a MAC whose OUI is in neither table and which the
  locally-administered check does not flag: with no recorded history the classification
  is \<open>(False, 0.3, "Unknown Device (Need More Data)")\<close>; with a history the confidence is
  \<open>0.6 * min (stdDev / 10) 1 + 0.4 * behaviorScore\<close>, where \<open>stdDev\<close> is the population
  standard deviation of the stored signals (divisor \<open>n\<close>; 0 below two samples) and
  \<open>behaviorScore\<close> is the score stored with the history, and the device is mobile exactly
  when that confidence exceeds 0.7. The stored score is what the last
  \<open>update_device_history\<close> left: 0 when that was the first observation of the MAC,
  otherwise \<open>0.5 * min (stdDev / 15) 1 + 0.3 * 0.7 + 0.2 * 0.6\<close> over the signals kept then
  (the most recent 20).
\<close>

theorem unknown_device_confidence:
  "(mobile_ouis (format_oui (get_oui m)) = None
      \<and> infrastructure_ouis (format_oui (get_oui m)) = None
      \<and> \<not> is_randomized_mac m \<longrightarrow>
    is_mobile_device st m =
      (case device_history st m of
         None \<Rightarrow> (False, 0.3, Label ''Unknown Device (Need More Data)'')
       | Some d \<Rightarrow>
           (let xs = di_signal_pattern d;
                n = length xs;
                avg = real_of_int (sum_list xs) / real n;
                stdDev = (if n < 2 then 0
                          else sqrt ((\<Sum>s\<leftarrow>xs. (real_of_int s - avg) ^ 2) / real n));
                c = 0.6 * min (stdDev / 10) 1.0 + 0.4 * di_behavior_score d
            in (c > 0.7, c,
                if c > 0.7 then Unknown_Mobile_Score c else Label ''Unknown Static Device''))))
   \<and> (case device_history (update_device_history st m sig nid now) m of
         None \<Rightarrow> False
       | Some d' \<Rightarrow>
           di_signal_pattern d'
             = drop (length (pattern_of st m @ [sig]) - 20) (pattern_of st m @ [sig])
           \<and> di_behavior_score d' =
               (if device_history st m = None then 0
                else let xs = di_signal_pattern d';
                         n = length xs;
                         avg = real_of_int (sum_list xs) / real n;
                         stdDev = (if n < 2 then 0
                                   else sqrt ((\<Sum>s\<leftarrow>xs. (real_of_int s - avg) ^ 2) / real n))
                     in 0.5 * min (stdDev / 15.0) 1.0 + 0.3 * 0.7 + 0.2 * 0.6))"
proof (intro conjI impI)
  assume "mobile_ouis (format_oui (get_oui m)) = None
      \<and> infrastructure_ouis (format_oui (get_oui m)) = None
      \<and> \<not> is_randomized_mac m"
  then show "is_mobile_device st m =
      (case device_history st m of
         None \<Rightarrow> (False, 0.3, Label ''Unknown Device (Need More Data)'')
       | Some d \<Rightarrow>
           (let xs = di_signal_pattern d;
                n = length xs;
                avg = real_of_int (sum_list xs) / real n;
                stdDev = (if n < 2 then 0
                          else sqrt ((\<Sum>s\<leftarrow>xs. (real_of_int s - avg) ^ 2) / real n));
                c = 0.6 * min (stdDev / 10) 1.0 + 0.4 * di_behavior_score d
            in (c > 0.7, c,
                if c > 0.7 then Unknown_Mobile_Score c else Label ''Unknown Static Device'')))"
    by (simp add: is_mobile_device_def analyze_unknown_device_def Let_def
        calculate_signal_variance_def
        signal_variance_threshold_def min_confidence_score_def mult.commute split: option.splits)
next
  show "case device_history (update_device_history st m sig nid now) m of
         None \<Rightarrow> False
       | Some d' \<Rightarrow>
           di_signal_pattern d'
             = drop (length (pattern_of st m @ [sig]) - 20) (pattern_of st m @ [sig])
           \<and> di_behavior_score d' =
               (if device_history st m = None then 0
                else let xs = di_signal_pattern d';
                         n = length xs;
                         avg = real_of_int (sum_list xs) / real n;
                         stdDev = (if n < 2 then 0
                                   else sqrt ((\<Sum>s\<leftarrow>xs. (real_of_int s - avg) ^ 2) / real n))
                     in 0.5 * min (stdDev / 15.0) 1.0 + 0.3 * 0.7 + 0.2 * 0.6)"
  proof (cases "device_history st m")
    case None
    then show ?thesis
      by (simp add: update_device_history_def pattern_of_def)
  next
    case (Some d)
    define p where "p = drop (length (pattern_of st m @ [sig]) - 20) (pattern_of st m @ [sig])"
    have "device_history (update_device_history st m sig nid now) m
       = Some (d\<lparr>di_signal_pattern := p,
                 di_behavior_score := calculate_behavior_score (d\<lparr>di_signal_pattern := p\<rparr>)\<rparr>)"
      unfolding p_def by (rule update_existing [OF Some])
    then show ?thesis
      unfolding p_def [symmetric] using Some
      by (simp add: behavior_score_unfold [of "d\<lparr>di_signal_pattern := p\<rparr>"])
  qed
qed


theorem unknown_device_confidence_witness:
  "mobile_ouis (format_oui (get_oui ''00:11:22:33:44:55'')) = None
   \<and> infrastructure_ouis (format_oui (get_oui ''00:11:22:33:44:55'')) = None
   \<and> \<not> is_randomized_mac ''00:11:22:33:44:55''
   \<and> is_mobile_device \<lparr>device_history = Map.empty\<rparr> ''00:11:22:33:44:55''
       = (False, 0.3, Label ''Unknown Device (Need More Data)'')
   \<and> is_mobile_device
         (update_all \<lparr>device_history = Map.empty\<rparr> ''00:11:22:33:44:55''
            [(-40, ''entrance'', 1), (-60, ''entrance'', 2)]) ''00:11:22:33:44:55''
       = (True, 649 / 750, Unknown_Mobile_Score (649 / 750))
   \<and> (case device_history
              (update_device_history \<lparr>device_history = Map.empty\<rparr> ''00:11:22:33:44:55''
                 (-40) ''entrance'' 1) ''00:11:22:33:44:55'' of
         None \<Rightarrow> False
       | Some d' \<Rightarrow> di_signal_pattern d' = [-40] \<and> di_behavior_score d' = 0)"
proof -
  let ?m = "''00:11:22:33:44:55''"
  let ?e = "\<lparr>device_history = Map.empty\<rparr>"
  let ?s = "update_all ?e ?m [(-40, ''entrance'', 1), (-60, ''entrance'', 2)]"
  have h: "mobile_ouis (format_oui (get_oui ?m)) = None
      \<and> infrastructure_ouis (format_oui (get_oui ?m)) = None
      \<and> \<not> is_randomized_mac ?m"
    using oui_001122 by simp
  have s: "?s = \<lparr>device_history = [?m \<mapsto>
           \<lparr>di_mac = ?m, di_vendor = ''Unknown'', di_device_type = ''Unknown'',
            di_confidence = 0, di_first_seen = 1, di_signal_pattern = [-40, -60],
            di_behavior_score = 199 / 300\<rparr>]\<rparr>"
    unfolding two_observations stddev_examples by simp
  have a: "is_mobile_device ?e ?m = (False, 0.3, Label ''Unknown Device (Need More Data)'')"
    using unknown_device_confidence [of ?m ?e, THEN conjunct1, THEN mp, OF h] by simp
  have b: "is_mobile_device ?s ?m = (True, 649 / 750, Unknown_Mobile_Score (649 / 750))"
    using unknown_device_confidence [of ?m ?s, THEN conjunct1, THEN mp, OF h] unfolding s
    by (simp add: Let_def)
  have c: "case device_history (update_device_history ?e ?m (-40) ''entrance'' 1) ?m of
         None \<Rightarrow> False
       | Some d' \<Rightarrow> di_signal_pattern d' = [-40] \<and> di_behavior_score d' = 0"
  proof -
    have u: "device_history (update_device_history ?e ?m (-40) ''entrance'' 1) ?m
        = Some \<lparr>di_mac = ?m, di_vendor = ''Unknown'', di_device_type = ''Unknown'',
                 di_confidence = 0, di_first_seen = 1, di_signal_pattern = [-40],
                 di_behavior_score = 0\<rparr>"
      by (simp add: update_device_history_def)
    show ?thesis
      using unknown_device_confidence [of ?m ?e "-40" "''entrance''" 1, THEN conjunct2]
      unfolding u by (simp add: pattern_of_def)
  qed
  show ?thesis using h a b c by simp
qed

section \<open>The behavior score\<close>

lemma signal_variance_nonneg: "0 \<le> calculate_signal_variance xs"
proof -
  have "0 \<le> (\<Sum>s\<leftarrow>xs. (real_of_int s - a) ^ 2)" for a
    by (rule sum_list_nonneg) auto
  then show ?thesis
    by (simp add: calculate_signal_variance_def Let_def)
qed

text \<open>
  Claim C7, amended: the behavior score of a device is
  \<open>0.5 * min (stdDev / 15) 1 + 0.3 * 0.7 + 0.2 * 0.6\<close>, where \<open>stdDev\<close> is the population
  standard deviation of the stored signals (the root of the mean squared deviation,
  divisor \<open>n\<close>; 0 when there are fewer than 2 samples); the score lies in \<open>[0, 1]\<close>.
\<close>

theorem behavior_score_formula:
  "calculate_behavior_score d =
     0.5 * min ((let xs = di_signal_pattern d; n = length xs;
                     avg = real_of_int (sum_list xs) / real n
                 in if n < 2 then 0
                    else sqrt ((\<Sum>s\<leftarrow>xs. (real_of_int s - avg) ^ 2) / real n)) / 15.0) 1.0
       + 0.3 * 0.7 + 0.2 * 0.6
   \<and> 0 \<le> calculate_behavior_score d \<and> calculate_behavior_score d \<le> 1"
proof -
  have "0 \<le> min (calculate_signal_variance (di_signal_pattern d) / 15) 1"
    using signal_variance_nonneg [of "di_signal_pattern d"] by simp
  moreover have "min (calculate_signal_variance (di_signal_pattern d) / 15) 1 \<le> 1"
    by simp
  ultimately have "0 \<le> calculate_behavior_score d \<and> calculate_behavior_score d \<le> 1"
    by (simp add: calculate_behavior_score_def Let_def)
  moreover have "calculate_behavior_score d =
     0.5 * min ((let xs = di_signal_pattern d; n = length xs;
                     avg = real_of_int (sum_list xs) / real n
                 in if n < 2 then 0
                    else sqrt ((\<Sum>s\<leftarrow>xs. (real_of_int s - avg) ^ 2) / real n)) / 15.0) 1.0
       + 0.3 * 0.7 + 0.2 * 0.6"
    by (simp add: calculate_behavior_score_def calculate_signal_variance_def Let_def)
  ultimately show ?thesis by blast
qed

text \<open>
  Claim C7, as stated, at the signals \<open>[-40, -60]\<close>: their sample standard deviation
  (divisor \<open>n - 1\<close>) is \<open>sqrt 200\<close>, about 14.14, while the code works with 10; the
  behavior score is not the one the formula gives with the sample standard deviation.
\<close>

theorem behavior_score_not_sample_stddev:
  "calculate_behavior_score
     \<lparr>di_mac = ''00:11:22:33:44:55'', di_vendor = ''Unknown'', di_device_type = ''Unknown'',
      di_confidence = 0, di_first_seen = 1, di_signal_pattern = [-40, -60],
      di_behavior_score = 0\<rparr>
   \<noteq> 0.5 * min (sample_stddev [-40, -60] / 15.0) 1.0 + 0.3 * 0.7 + 0.2 * 0.6"
proof -
  have s: "sample_stddev [-40, -60] = sqrt 200"
    by (simp add: sample_stddev_def)
  have lt: "sqrt 200 < 15"
    by (rule real_less_lsqrt) simp_all
  have gt: "10 < sqrt 200"
    by (rule real_less_rsqrt) simp
  have c: "calculate_signal_variance [-40, -60] = 10"
    by (simp add: calculate_signal_variance_def)
  show ?thesis using lt gt by (simp add: calculate_behavior_score_def s c)
qed

theorem behavior_score_formula_witness:
  "calculate_behavior_score
     \<lparr>di_mac = ''00:11:22:33:44:55'', di_vendor = ''Unknown'', di_device_type = ''Unknown'',
      di_confidence = 0, di_first_seen = 1, di_signal_pattern = [-40, -60],
      di_behavior_score = 0\<rparr> = 199 / 300"
  using behavior_score_formula [of "\<lparr>di_mac = ''00:11:22:33:44:55'', di_vendor = ''Unknown'', di_device_type = ''Unknown'',
      di_confidence = 0, di_first_seen = 1, di_signal_pattern = [-40, -60],
      di_behavior_score = 0\<rparr>"]
  by simp


section \<open>Parsing a hex digit, and the detector unfolded\<close>

lemma py_strip_single: "py_strip [c] = (if py_isspace c then [] else [c])"
  by (simp add: py_strip_def)

lemma py_int16_space: "py_isspace c \<Longrightarrow> py_int16 [c] = None"
  by (simp add: py_int16_def py_strip_single)

lemma py_int16_sign: "c = CHR ''+'' \<or> c = CHR ''-'' \<Longrightarrow> py_int16 [c] = None"
  by (auto simp add: py_int16_def py_strip_single Let_def)

lemma py_int16_plain:
  "\<not> py_isspace c \<Longrightarrow> c \<noteq> CHR ''+'' \<Longrightarrow> c \<noteq> CHR ''-'' \<Longrightarrow>
   py_int16 [c] = (if digits_ok True [c] then Some (int (digits_value 0 [c])) else None)"
  by (simp add: py_int16_def py_strip_single Let_def)


lemma hex_digit_special:
  "py_isspace c \<Longrightarrow> hex_digit c = None"
  "hex_digit (CHR ''+'') = None" "hex_digit (CHR ''-'') = None" "hex_digit (CHR ''_'') = None"
  "hex_digit (CHR ''x'') = None" "hex_digit (CHR ''X'') = None" "hex_digit (CHR '':'') = None"
  by (auto simp add: hex_digit_def py_isspace_def Let_def)

lemma py_int16_single: "py_int16 [c] = map_option int (hex_digit c)"
proof -
  consider "py_isspace c" | "c = CHR ''+'' \<or> c = CHR ''-''"
    | "\<not> py_isspace c" "c \<noteq> CHR ''+''" "c \<noteq> CHR ''-''"
    by blast
  then show ?thesis
  proof cases
    case 1
    then show ?thesis by (simp add: py_int16_space hex_digit_special)
  next
    case 2
    then show ?thesis by (auto simp add: py_int16_sign hex_digit_special)
  next
    case 3
    show ?thesis
    proof (cases "c = CHR ''_''")
      case True
      with py_int16_plain [OF 3] show ?thesis by (simp add: hex_digit_special)
    next
      case False
      then show ?thesis by (cases "hex_digit c") (simp_all add: py_int16_plain [OF 3])
    qed
  qed
qed


lemma startswith_2: "length p = 2 \<Longrightarrow> startswith s p = (take 2 s = p)"
  by (simp add: startswith_def)

lemma common_prefix_iff:
  "list_ex (startswith c) [''02'', ''06'', ''0A'', ''0E''] = (take 2 c \<in> {''02'', ''06'', ''0A'', ''0E''})"
  by (simp add: startswith_2)

lemma apple_prefix_iff:
  "list_ex (startswith c) [''DA'', ''DE'', ''D6'', ''D2''] = (take 2 c \<in> {''DA'', ''DE'', ''D6'', ''D2''})"
  by (simp add: startswith_2)

lemma analyze_randomness_iff:
  "analyze_randomness c =
     (take 6 c \<notin> {''001EC2'', ''0050E4'', ''001D4F'', ''002608'', ''0023DF'',
                    ''001377'', ''002566'', ''001AA0'', ''0021FB'',
                    ''DA0E14'', ''F4F5E8'', ''3C5AB4''})"
proof -
  define o6 where "o6 = take 6 c"
  show ?thesis
    unfolding analyze_randomness_def known_ouis_def Let_def o6_def [symmetric]
    by simp
qed

lemma detect_randomized_mac_unfold:
  "detect_randomized_mac m =
     (let c = py_upper (py_remove (CHR '':'') m)
      in if length c < 2 then Inl IndexError
         else case hex_digit (c ! 1) of
                None \<Rightarrow> Inl ValueError
              | Some d \<Rightarrow>
                  Inr (int d AND 2 \<noteq> 0
                       \<or> take 2 c \<in> {''02'', ''06'', ''0A'', ''0E''}
                       \<or> take 2 c \<in> {''DA'', ''DE'', ''D6'', ''D2''}
                       \<or> take 6 c \<notin> {''001EC2'', ''0050E4'', ''001D4F'', ''002608'', ''0023DF'',
                                        ''001377'', ''002566'', ''001AA0'', ''0021FB'',
                                        ''DA0E14'', ''F4F5E8'', ''3C5AB4''}))"
proof -
  define c where "c = py_upper (py_remove (CHR '':'') m)"
  define A where "A = (take 2 c \<in> {''02'', ''06'', ''0A'', ''0E''})"
  define B where "B = (take 2 c \<in> {''DA'', ''DE'', ''D6'', ''D2''})"
  define C where "C = (take 6 c \<notin> {''001EC2'', ''0050E4'', ''001D4F'', ''002608'', ''0023DF'',
                                        ''001377'', ''002566'', ''001AA0'', ''0021FB'',
                                        ''DA0E14'', ''F4F5E8'', ''3C5AB4''})"
  have "detect_randomized_mac m =
     (if length c < 2 then Inl IndexError
      else case hex_digit (c ! 1) of
             None \<Rightarrow> Inl ValueError
           | Some d \<Rightarrow> Inr (int d AND 2 \<noteq> 0 \<or> A \<or> B \<or> C))"
    unfolding detect_randomized_mac_def Let_def c_def [symmetric] locally_administered_def
      py_int16_single common_prefix_iff apple_prefix_iff analyze_randomness_iff
      A_def [symmetric] B_def [symmetric] C_def [symmetric]
    by (simp split: option.splits)
  then show ?thesis
    unfolding Let_def c_def [symmetric] A_def [symmetric] B_def [symmetric] C_def [symmetric] .
qed

lemma register_user_unfold:
  "register_user st nm m now =
     (case detect_randomized_mac m of
        Inl e \<Rightarrow> (False, st)
      | Inr r \<Rightarrow> (\<not> r, st\<lparr>known_users := AList.update m
                  \<lparr>ud_name = nm, registered_at = now, ud_mac_history = [m],
                   is_randomized = r\<rparr> (known_users st)\<rparr>))"
  by (simp add: register_user_def Let_def split: sum.splits)

lemma detect_0G: "detect_randomized_mac ''0G:11:22:33:44:55'' = Inl ValueError"
  by (simp add: detect_randomized_mac_def locally_administered_def string_eval)

section \<open>Registration and the randomization detector\<close>

text \<open>
  Claim C9, as stated, at the MAC \<open>0G:11:22:33:44:55\<close>: its OUI is absent from the
  known-manufacturer table, so the fourth heuristic alone is positive, yet the detector
  raises ValueError on the second character instead of flagging the MAC; \<open>register_user\<close>
  catches the exception, returns false and has stored no entry.
\<close>

theorem register_user_malformed_not_stored:
  "detect_randomized_mac ''0G:11:22:33:44:55'' = Inl ValueError
   \<and> analyze_randomness (py_upper (py_remove (CHR '':'') ''0G:11:22:33:44:55'')) = True
   \<and> fst (register_user new_tracker ''Glenn'' ''0G:11:22:33:44:55'' 0) = False
   \<and> known_users (snd (register_user new_tracker ''Glenn'' ''0G:11:22:33:44:55'' 0)) = []"
  by (simp add: register_user_def detect_0G new_tracker_def analyze_randomness_def known_ouis_def
      string_eval)

lemma detect_apple: "detect_randomized_mac ''00:1E:C2:11:22:33'' = Inr False"
  by (simp add: detect_randomized_mac_def locally_administered_def analyze_randomness_def
      known_ouis_def string_eval)

lemma detect_DA: "detect_randomized_mac ''DA:0E:14:12:34:56'' = Inr True"
  by (simp add: detect_randomized_mac_def locally_administered_def analyze_randomness_def
      known_ouis_def string_eval)






text \<open>
  Claim C9, amended. With \<open>c\<close> the MAC with colons removed and upper-cased: the detector
  raises IndexError when \<open>c\<close> has fewer than two characters and ValueError when its
  second character is not a hex digit; otherwise it returns the disjunction of the four
  heuristics (bit \<open>0x2\<close> of the second hex digit, which is the locally-administered bit of
  the first octet; \<open>c\<close> starts with 02, 06, 0A or 0E; \<open>c\<close> starts with DA, DE, D6 or D2;
  the first six characters of \<open>c\<close> are not in the known-manufacturer table).
  \<open>register_user\<close> stores the entry, with that flag as \<open>is_randomized\<close>, and returns false
  exactly when the MAC is flagged, whenever the detector returns; when the detector raises
  it stores nothing and returns false.
\<close>

theorem register_user_spec:
  "detect_randomized_mac m =
     (let c = py_upper (py_remove (CHR '':'') m)
      in if length c < 2 then Inl IndexError
         else case hex_digit (c ! 1) of
                None \<Rightarrow> Inl ValueError
              | Some d \<Rightarrow>
                  Inr (int d AND 2 \<noteq> 0
                       \<or> take 2 c \<in> {''02'', ''06'', ''0A'', ''0E''}
                       \<or> take 2 c \<in> {''DA'', ''DE'', ''D6'', ''D2''}
                       \<or> take 6 c \<notin> {''001EC2'', ''0050E4'', ''001D4F'', ''002608'', ''0023DF'',
                                        ''001377'', ''002566'', ''001AA0'', ''0021FB'',
                                        ''DA0E14'', ''F4F5E8'', ''3C5AB4''}))
   \<and> register_user st nm m now =
     (case detect_randomized_mac m of
        Inl e \<Rightarrow> (False, st)
      | Inr r \<Rightarrow> (\<not> r, st\<lparr>known_users := AList.update m
                  \<lparr>ud_name = nm, registered_at = now, ud_mac_history = [m],
                   is_randomized = r\<rparr> (known_users st)\<rparr>))"
  using detect_randomized_mac_unfold [of m] register_user_unfold [of st nm m now]
  by (rule conjI)

theorem register_user_spec_witness:
  "register_user new_tracker ''Glenn'' ''00:1E:C2:11:22:33'' 5
     = (True, new_tracker\<lparr>known_users := [(''00:1E:C2:11:22:33'',
          \<lparr>ud_name = ''Glenn'', registered_at = 5, ud_mac_history = [''00:1E:C2:11:22:33''],
           is_randomized = False\<rparr>)]\<rparr>)
   \<and> register_user new_tracker ''Glenn'' ''DA:0E:14:12:34:56'' 5
     = (False, new_tracker\<lparr>known_users := [(''DA:0E:14:12:34:56'',
          \<lparr>ud_name = ''Glenn'', registered_at = 5, ud_mac_history = [''DA:0E:14:12:34:56''],
           is_randomized = True\<rparr>)]\<rparr>)"
  using register_user_spec [of "''00:1E:C2:11:22:33''" new_tracker "''Glenn''" 5]
    register_user_spec [of "''DA:0E:14:12:34:56''" new_tracker "''Glenn''" 5]
  by (simp add: detect_apple detect_DA new_tracker_def)

section \<open>Malformed MAC strings\<close>







section \<open>The classification cascade\<close>

lemma of_char_upper_char:
  "(of_char (upper_char c) :: nat) =
     (if 97 \<le> (of_char c :: nat) \<and> (of_char c :: nat) \<le> 122 then of_char c - 32 else of_char c)"
  by (auto simp add: upper_char_def Let_def)

lemma upper_char_hex:
  assumes "hex_digit c \<noteq> None"
  shows "upper_char c \<noteq> CHR '':''" "upper_char c \<noteq> CHR ''-''"
proof -
  have r: "(of_char (upper_char c) :: nat) \<noteq> 58 \<and> (of_char (upper_char c) :: nat) \<noteq> 45"
    using assms unfolding of_char_upper_char
    by (auto simp add: hex_digit_def Let_def split: if_splits)
  show "upper_char c \<noteq> CHR '':''" "upper_char c \<noteq> CHR ''-''"
    using r by auto
qed

lemma upper_char_colon: "upper_char (CHR '':'') = CHR '':''"
  by (simp add: upper_char_def)

lemma py_int16_pair:
  assumes "hex_digit a = Some x" "hex_digit b = Some y"
  shows "py_int16 [a, b] = Some (int (16 * x + y))"
proof -
  have s: "py_strip [a, b] = [a, b]"
    using hex_digit_special(1) [of a] hex_digit_special(1) [of b] assms
    by (auto simp add: py_strip_def)
  have n: "a \<noteq> CHR ''+''" "a \<noteq> CHR ''-''" "a \<noteq> CHR ''_''" "b \<noteq> CHR ''_''"
    "b \<noteq> CHR ''x''" "b \<noteq> CHR ''X''"
    using assms hex_digit_special by auto
  show ?thesis
    using assms n by (simp add: py_int16_def s Let_def)
qed


lemma valid_mac_formatD:
  assumes "valid_mac_format m"
  shows "length m = 17"
    and "\<And>i. i < 17 \<Longrightarrow> i mod 3 = 2 \<Longrightarrow> m ! i = CHR '':''"
    and "\<And>i. i < 17 \<Longrightarrow> i mod 3 \<noteq> 2 \<Longrightarrow> hex_digit (m ! i) \<noteq> None"
  using assms by (auto simp add: valid_mac_format_def list_all_iff)

lemma take_8_nth:
  assumes "length m = 17"
  shows "take 8 m = [m ! 0, m ! 1, m ! 2, m ! 3, m ! 4, m ! 5, m ! 6, m ! 7]"
proof -
  have "take 8 m = take 8 (map ((!) m) [0..<length m])"
    by (simp only: map_nth)
  also have "\<dots> = map ((!) m) [0..<8]"
    using assms by (simp add: take_map)
  also have "[0..<8] = [0, 1, 2, 3, 4, 5, 6, 7 :: nat]"
    by (simp add: upt_eq_Cons_conv)
  finally show ?thesis by simp
qed

lemma and_2_int_nat: "(int k AND 2 \<noteq> 0) = (k AND 2 \<noteq> 0)"
proof -
  have "int k AND 2 = int (k AND 2)"
    by (simp add: of_nat_and_eq)
  then show ?thesis by simp
qed

lemma valid_mac_oui:
  assumes "valid_mac_format m"
  shows "format_oui (get_oui m) = py_upper (take 8 m)"
proof -
  note v = valid_mac_formatD [OF assms]
  define r where "r = drop 8 m"
  have m: "m = [m ! 0, m ! 1, m ! 2, m ! 3, m ! 4, m ! 5, m ! 6, m ! 7] @ r"
    unfolding r_def take_8_nth [OF v(1), symmetric] by simp
  have c: "m ! 2 = CHR '':''" "m ! 5 = CHR '':''"
    by (rule v(2); simp)+
  have h: "hex_digit (m ! 0) \<noteq> None" "hex_digit (m ! 1) \<noteq> None" "hex_digit (m ! 3) \<noteq> None"
    "hex_digit (m ! 4) \<noteq> None" "hex_digit (m ! 6) \<noteq> None" "hex_digit (m ! 7) \<noteq> None"
    by (rule v(3); simp)+
  define u where "u = (\<lambda>i. upper_char (m ! i))"
  have u: "u 0 \<noteq> CHR '':''" "u 1 \<noteq> CHR '':''" "u 3 \<noteq> CHR '':''" "u 4 \<noteq> CHR '':''"
    "u 6 \<noteq> CHR '':''" "u 7 \<noteq> CHR '':''"
    "u 0 \<noteq> CHR ''-''" "u 1 \<noteq> CHR ''-''" "u 3 \<noteq> CHR ''-''" "u 4 \<noteq> CHR ''-''"
    "u 6 \<noteq> CHR ''-''" "u 7 \<noteq> CHR ''-''"
    unfolding u_def using h by (simp_all add: upper_char_hex)
  have up: "py_upper m = [u 0, u 1, CHR '':'', u 3, u 4, CHR '':'', u 6, u 7] @ py_upper r"
    by (subst m) (simp add: py_upper_def u_def c upper_char_colon)
  have "get_oui m = [u 0, u 1, u 3, u 4, u 6, u 7]"
    unfolding get_oui_def up using u by (simp add: py_remove_def)
  moreover have "py_upper (take 8 m) = [u 0, u 1, CHR '':'', u 3, u 4, CHR '':'', u 6, u 7]"
    unfolding take_8_nth [OF v(1)] by (simp add: py_upper_def u_def c upper_char_colon)
  ultimately show ?thesis by (simp add: format_oui_def)
qed

lemma valid_mac_randomized:
  assumes "valid_mac_format m"
  shows "is_randomized_mac m
     = ((16 * the (hex_digit (m ! 0)) + the (hex_digit (m ! 1))) AND 2 \<noteq> 0)"
proof -
  note v = valid_mac_formatD [OF assms]
  define r where "r = drop 8 m"
  have m: "m = [m ! 0, m ! 1, m ! 2, m ! 3, m ! 4, m ! 5, m ! 6, m ! 7] @ r"
    unfolding r_def take_8_nth [OF v(1), symmetric] by simp
  have c: "m ! 2 = CHR '':''"
    by (rule v(2); simp)
  have "hex_digit (m ! 0) \<noteq> None" "hex_digit (m ! 1) \<noteq> None"
    by (rule v(3); simp)+
  then obtain x y where h: "hex_digit (m ! 0) = Some x" "hex_digit (m ! 1) = Some y"
    by auto
  then have n: "m ! 0 \<noteq> CHR '':''" "m ! 1 \<noteq> CHR '':''"
    using hex_digit_special(7) by auto
  have t: "takeWhile (\<lambda>c. c \<noteq> CHR '':'') m = [m ! 0, m ! 1]"
    using n c by (subst m) simp
  have "is_randomized_mac m = (int (16 * x + y) AND 2 \<noteq> 0)"
    unfolding is_randomized_mac_def t py_int16_pair [OF h] by simp
  also have "\<dots> = ((16 * x + y) AND 2 \<noteq> 0)"
    by (rule and_2_int_nat)
  finally show ?thesis unfolding h by simp
qed

text \<open>
  On the colon notation the cascade reads the address as intended. For every well-formed
  MAC (six colon-separated pairs of hex digits, in either case), with the OUI its first
  three bytes in upper case and the first octet the value of its first two hex digits:
  \<open>is_mobile_device\<close> returns \<open>(True, 0.95, label)\<close> when the OUI is in the mobile table;
  otherwise \<open>(False, 0.95, label)\<close> when it is in the infrastructure table; otherwise
  \<open>(True, 0.8, "Mobile (Randomized MAC)")\<close> when bit \<open>0x02\<close> of the first octet is set;
  otherwise what the behavioral analysis returns.
\<close>

lemma cascade_on_colon_notation:
  assumes "valid_mac_format m"
  shows "is_mobile_device st m =
     (case mobile_ouis (py_upper (take 8 m)) of
        Some v \<Rightarrow> (True, 0.95, Label v)
      | None \<Rightarrow>
          (case infrastructure_ouis (py_upper (take 8 m)) of
             Some v \<Rightarrow> (False, 0.95, Label v)
           | None \<Rightarrow>
               if (16 * the (hex_digit (m ! 0)) + the (hex_digit (m ! 1))) AND 2 \<noteq> 0
               then (True, 0.8, Label ''Mobile (Randomized MAC)'')
               else analyze_unknown_device st m))"
  unfolding is_mobile_device_def Let_def valid_mac_oui [OF assms]
    valid_mac_randomized [OF assms]
  by (rule refl)


lemma cascade_examples:
  "valid_mac_format ''3C:2E:FF:12:34:56''"
  "valid_mac_format ''02:00:00:11:22:33''"
  "valid_mac_format ''A2:11:22:33:44:55''"
  "py_upper (take 8 ''3C:2E:FF:12:34:56'') = ''3C:2E:FF''"
  "py_upper (take 8 ''02:00:00:11:22:33'') = ''02:00:00''"
  "py_upper (take 8 ''A2:11:22:33:44:55'') = ''A2:11:22''"
  "mobile_ouis ''3C:2E:FF'' = Some ''Apple iPhone''"
  "mobile_ouis ''02:00:00'' = None"
  "infrastructure_ouis ''02:00:00'' = Some ''Private/Random MAC''"
  "mobile_ouis ''A2:11:22'' = None"
  "infrastructure_ouis ''A2:11:22'' = None"
  by (code_simp, code_simp, code_simp)
    (simp_all add: string_eval mobile_ouis_def mobile_oui_entries_def
      infrastructure_ouis_def infrastructure_oui_entries_def)

lemma cascade_on_colon_notation_examples:
  "valid_mac_format ''3C:2E:FF:12:34:56''
   \<and> is_mobile_device \<lparr>device_history = Map.empty\<rparr> ''3C:2E:FF:12:34:56''
       = (True, 0.95, Label ''Apple iPhone'')
   \<and> valid_mac_format ''02:00:00:11:22:33''
   \<and> is_mobile_device \<lparr>device_history = Map.empty\<rparr> ''02:00:00:11:22:33''
       = (False, 0.95, Label ''Private/Random MAC'')
   \<and> valid_mac_format ''A2:11:22:33:44:55''
   \<and> is_mobile_device \<lparr>device_history = Map.empty\<rparr> ''A2:11:22:33:44:55''
       = (True, 0.8, Label ''Mobile (Randomized MAC)'')"
proof -
  let ?e = "\<lparr>device_history = Map.empty\<rparr>"
  have a: "is_mobile_device ?e ''3C:2E:FF:12:34:56'' = (True, 0.95, Label ''Apple iPhone'')"
    using cascade_on_colon_notation [OF cascade_examples(1), of ?e]
    unfolding cascade_examples by simp
  have b: "is_mobile_device ?e ''02:00:00:11:22:33'' = (False, 0.95, Label ''Private/Random MAC'')"
    using cascade_on_colon_notation [OF cascade_examples(2), of ?e]
    unfolding cascade_examples by simp
  have c: "is_mobile_device ?e ''A2:11:22:33:44:55'' = (True, 0.8, Label ''Mobile (Randomized MAC)'')"
    using cascade_on_colon_notation [OF cascade_examples(3), of ?e]
    unfolding cascade_examples by (simp add: hex_digit_def)
  show ?thesis using a b c cascade_examples(1-3) by simp
qed

lemma dash_oui:
  "format_oui (get_oui ''A2-11-22-33-44-55'') = ''A2:11:22''"
  "format_oui (get_oui ''A2:11:22:33:44:55'') = ''A2:11:22''"
  "mobile_ouis ''A2:11:22'' = None"
  "infrastructure_ouis ''A2:11:22'' = None"
  "\<not> is_randomized_mac ''A2-11-22-33-44-55''"
  "is_randomized_mac ''A2:11:22:33:44:55''"
  by (simp_all add: format_oui_def get_oui_def is_randomized_mac_def string_eval
      mobile_ouis_def mobile_oui_entries_def infrastructure_ouis_def infrastructure_oui_entries_def)

text \<open>
  Claim C5 says that, for every MAC, an OUI in neither table and a set
  locally-administered bit give \<open>(True, 0.8, "Mobile (Randomized MAC)")\<close>. \<open>get_oui\<close> accepts
  the dash notation and finds the OUI \<open>A2:11:22\<close> of \<open>A2-11-22-33-44-55\<close>, which is in
  neither table, and the first octet \<open>A2\<close> has bit \<open>0x02\<close> set. But \<open>_is_randomized_mac\<close>
  splits on colons only: \<open>int\<close> raises on the whole string, the bare \<open>except\<close> turns that
  into False, and the address is classified as an unknown device. The same address in
  colon notation is classified as a randomized mobile.
\<close>

theorem dash_notation_skips_randomized_check:
  "format_oui (get_oui ''A2-11-22-33-44-55'') = ''A2:11:22''
   \<and> mobile_ouis ''A2:11:22'' = None
   \<and> infrastructure_ouis ''A2:11:22'' = None
   \<and> is_mobile_device \<lparr>device_history = Map.empty\<rparr> ''A2-11-22-33-44-55''
       = (False, 0.3, Label ''Unknown Device (Need More Data)'')
   \<and> is_mobile_device \<lparr>device_history = Map.empty\<rparr> ''A2:11:22:33:44:55''
       = (True, 0.8, Label ''Mobile (Randomized MAC)'')"
  by (simp add: is_mobile_device_def analyze_unknown_device_def dash_oui)

end
